theory Spec2Isabelle
  imports Complex_Main
begin

section \<open>Tensors and the tensor primitives used by \<open>lib/nets.py\<close>\<close>

text \<open>
  A tensor of rank 4 carries its shape, as \<open>x.size()\<close> reports it (batch, channel,
  frequency bin, time frame), and its elements as nested lists in the same axis order.
  A float32 element is read as a real number and a complex64 element as a complex
  number: rounding, overflow, NaN and Inf are outside this development.
\<close>

record 'a tensor =
  size0 :: nat
  size1 :: nat
  size2 :: nat
  size3 :: nat
  elems :: "'a list list list list"

text \<open>The dtype of a tensor is dynamic in Python: a spectrogram is real or complex.\<close>

datatype any_tensor = RealT "real tensor" | ComplexT "complex tensor"

text \<open>
  \<open>ShapeMismatch\<close> and \<open>DtypeMismatch\<close> are the RuntimeErrors of the tensor library,
  \<open>AssertionError\<close> is Python's failed \<open>assert\<close>.
\<close>

datatype error = ShapeMismatch | DtypeMismatch | AssertionError

definition sbind :: "error + 'a \<Rightarrow> ('a \<Rightarrow> error + 'b) \<Rightarrow> error + 'b" where
  "sbind m f = (case m of Inl e \<Rightarrow> Inl e | Inr v \<Rightarrow> f v)"

text \<open>A tensor is well formed when its nested lists have the extents of its shape.\<close>

definition rect2 :: "nat \<Rightarrow> nat \<Rightarrow> 'a list list \<Rightarrow> bool" where
  "rect2 h w c \<longleftrightarrow> length c = h \<and> (\<forall>r \<in> set c. length r = w)"

definition rect3 :: "nat \<Rightarrow> nat \<Rightarrow> nat \<Rightarrow> 'a list list list \<Rightarrow> bool" where
  "rect3 c h w b \<longleftrightarrow> length b = c \<and> (\<forall>ch \<in> set b. rect2 h w ch)"

definition wf_tensor :: "'a tensor \<Rightarrow> bool" where
  "wf_tensor x \<longleftrightarrow>
     length (elems x) = size0 x \<and>
     (\<forall>b \<in> set (elems x). rect3 (size1 x) (size2 x) (size3 x) b)"

definition shaped :: "'a tensor \<Rightarrow> nat \<Rightarrow> nat \<Rightarrow> nat \<Rightarrow> nat \<Rightarrow> bool" where
  "shaped x b c h w \<longleftrightarrow>
     wf_tensor x \<and> size0 x = b \<and> size1 x = c \<and> size2 x = h \<and> size3 x = w"

definition tmap :: "('a \<Rightarrow> 'b) \<Rightarrow> 'a tensor \<Rightarrow> 'b tensor" where
  "tmap f x =
     \<lparr>size0 = size0 x, size1 = size1 x, size2 = size2 x, size3 = size3 x,
      elems = map (map (map (map f))) (elems x)\<rparr>"

text \<open>Basic slicing. \<open>x[:, :n]\<close>, \<open>x[:, n:]\<close>, \<open>x[:, :, :n]\<close>, \<open>x[:, :, n:]\<close> for \<open>n \<ge> 0\<close>.\<close>

definition slice_dim1_to :: "nat \<Rightarrow> 'a tensor \<Rightarrow> 'a tensor" where
  "slice_dim1_to n x = x\<lparr>size1 := min n (size1 x), elems := map (take n) (elems x)\<rparr>"

definition slice_dim1_from :: "nat \<Rightarrow> 'a tensor \<Rightarrow> 'a tensor" where
  "slice_dim1_from n x = x\<lparr>size1 := size1 x - n, elems := map (drop n) (elems x)\<rparr>"

definition slice_dim2_to :: "nat \<Rightarrow> 'a tensor \<Rightarrow> 'a tensor" where
  "slice_dim2_to n x = x\<lparr>size2 := min n (size2 x), elems := map (map (take n)) (elems x)\<rparr>"

definition slice_dim2_from :: "nat \<Rightarrow> 'a tensor \<Rightarrow> 'a tensor" where
  "slice_dim2_from n x = x\<lparr>size2 := size2 x - n, elems := map (map (drop n)) (elems x)\<rparr>"

text \<open>
  \<open>x[:, :, :, o:-o]\<close>. For \<open>o > 0\<close> the slice keeps the indices from \<open>o\<close> up to
  \<open>T - o\<close> (none when \<open>T \<le> 2 * o\<close>); for \<open>o = 0\<close> Python reads \<open>-0\<close> as \<open>0\<close> and the
  slice is empty.
\<close>

definition slice_dim3_mid :: "nat \<Rightarrow> 'a tensor \<Rightarrow> 'a tensor" where
  "slice_dim3_mid off x =
     (if off = 0
      then x\<lparr>size3 := 0, elems := map (map (map (\<lambda>r. []))) (elems x)\<rparr>
      else x\<lparr>size3 := size3 x - 2 * off,
             elems := map (map (map (\<lambda>r. drop off (take (size3 x - off) r)))) (elems x)\<rparr>)"

text \<open>\<open>torch.cat\<close> along the channel axis and along the frequency axis: every other
  axis must agree.\<close>

definition cat2_dim1 :: "'a tensor \<Rightarrow> 'a tensor \<Rightarrow> error + 'a tensor" where
  "cat2_dim1 x y =
     (if size0 x = size0 y \<and> size2 x = size2 y \<and> size3 x = size3 y
      then Inr (x\<lparr>size1 := size1 x + size1 y, elems := map2 (@) (elems x) (elems y)\<rparr>)
      else Inl ShapeMismatch)"

definition cat2_dim2 :: "'a tensor \<Rightarrow> 'a tensor \<Rightarrow> error + 'a tensor" where
  "cat2_dim2 x y =
     (if size0 x = size0 y \<and> size1 x = size1 y \<and> size3 x = size3 y
      then Inr (x\<lparr>size2 := size2 x + size2 y,
                  elems := map2 (map2 (@)) (elems x) (elems y)\<rparr>)
      else Inl ShapeMismatch)"

fun cat_dim1 :: "'a tensor list \<Rightarrow> error + 'a tensor" where
  "cat_dim1 [] = Inl ShapeMismatch"
| "cat_dim1 [x] = Inr x"
| "cat_dim1 (x # y # ys) = sbind (cat2_dim1 x y) (\<lambda>z. cat_dim1 (z # ys))"

fun cat_dim2 :: "'a tensor list \<Rightarrow> error + 'a tensor" where
  "cat_dim2 [] = Inl ShapeMismatch"
| "cat_dim2 [x] = Inr x"
| "cat_dim2 (x # y # ys) = sbind (cat2_dim2 x y) (\<lambda>z. cat_dim2 (z # ys))"

text \<open>
  Broadcasting of a binary elementwise operation over two rank-4 tensors: on every
  axis the two sizes are equal or one of them is 1, and an axis of size 1 is repeated.
\<close>

definition compat :: "nat \<Rightarrow> nat \<Rightarrow> bool" where
  "compat a b \<longleftrightarrow> a = b \<or> a = 1 \<or> b = 1"

definition bsize :: "nat \<Rightarrow> nat \<Rightarrow> nat" where
  "bsize a b = (if a = 1 then b else a)"

definition bcast :: "nat \<Rightarrow> 'a list \<Rightarrow> 'a list" where
  "bcast n xs = (case xs of [v] \<Rightarrow> replicate n v | _ \<Rightarrow> xs)"

definition expand :: "nat \<Rightarrow> nat \<Rightarrow> nat \<Rightarrow> nat \<Rightarrow> 'a tensor \<Rightarrow> 'a list list list list" where
  "expand b c h w x =
     bcast b (map (\<lambda>cs. bcast c (map (\<lambda>rs. bcast h (map (bcast w) rs)) cs)) (elems x))"

definition broadcast2 :: "('a \<Rightarrow> 'b \<Rightarrow> 'c) \<Rightarrow> 'a tensor \<Rightarrow> 'b tensor \<Rightarrow> error + 'c tensor" where
  "broadcast2 f x y =
     (if compat (size0 x) (size0 y) \<and> compat (size1 x) (size1 y) \<and>
         compat (size2 x) (size2 y) \<and> compat (size3 x) (size3 y)
      then
        (let b = bsize (size0 x) (size0 y); c = bsize (size1 x) (size1 y);
             h = bsize (size2 x) (size2 y); w = bsize (size3 x) (size3 y)
         in Inr \<lparr>size0 = b, size1 = c, size2 = h, size3 = w,
                 elems = map2 (map2 (map2 (map2 f))) (expand b c h w x) (expand b c h w y)\<rparr>)
      else Inl ShapeMismatch)"

text \<open>
  \<open>F.pad(input, pad=(0, 0, 0, p), mode='replicate')\<close>: the time axis is left alone and
  the frequency axis grows by \<open>p\<close> copies of its last row at the end (a negative \<open>p\<close>
  crops). Replication needs a non-empty channel, frequency and time axis and a
  non-empty result.
\<close>

definition pad_replicate :: "int \<Rightarrow> 'a tensor \<Rightarrow> error + 'a tensor" where
  "pad_replicate p x =
     (if size1 x = 0 \<or> size2 x = 0 \<or> size3 x = 0 \<or> int (size2 x) + p < 1
      then Inl ShapeMismatch
      else Inr (x\<lparr>size2 := nat (int (size2 x) + p),
                  elems := map (map (\<lambda>rows.
                     if 0 \<le> p then rows @ replicate (nat p) (last rows)
                     else take (nat (int (size2 x) + p)) rows)) (elems x)\<rparr>))"

text \<open>\<open>torch.sigmoid\<close> on one element.\<close>

definition sigmoid :: "real \<Rightarrow> real" where
  "sigmoid v = 1 / (1 + exp (- v))"

text \<open>\<open>x * y\<close> on tensors of either dtype; a real operand is promoted to complex when
  the other one is complex.\<close>

fun torch_mul :: "any_tensor \<Rightarrow> any_tensor \<Rightarrow> error + any_tensor" where
  "torch_mul (RealT x) (RealT y) = map_sum id RealT (broadcast2 (\<lambda>a b. a * b) x y)"
| "torch_mul (ComplexT x) (ComplexT y) = map_sum id ComplexT (broadcast2 (\<lambda>a b. a * b) x y)"
| "torch_mul (RealT x) (ComplexT y) =
     map_sum id ComplexT (broadcast2 (\<lambda>a b. complex_of_real a * b) x y)"
| "torch_mul (ComplexT x) (RealT y) =
     map_sum id ComplexT (broadcast2 (\<lambda>a b. a * complex_of_real b) x y)"

fun any_slice_dim3_mid :: "nat \<Rightarrow> any_tensor \<Rightarrow> any_tensor" where
  "any_slice_dim3_mid off (RealT x) = RealT (slice_dim3_mid off x)"
| "any_slice_dim3_mid off (ComplexT x) = ComplexT (slice_dim3_mid off x)"

fun any_size :: "any_tensor \<Rightarrow> nat \<times> nat \<times> nat \<times> nat" where
  "any_size (RealT x) = (size0 x, size1 x, size2 x, size3 x)"
| "any_size (ComplexT x) = (size0 x, size1 x, size2 x, size3 x)"

fun any_size3 :: "any_tensor \<Rightarrow> nat" where
  "any_size3 (RealT x) = size3 x"
| "any_size3 (ComplexT x) = size3 x"

fun any_size2 :: "any_tensor \<Rightarrow> nat" where
  "any_size2 (RealT x) = size2 x"
| "any_size2 (ComplexT x) = size2 x"

fun any_pad_replicate :: "int \<Rightarrow> any_tensor \<Rightarrow> error + any_tensor" where
  "any_pad_replicate p (RealT x) = map_sum id RealT (pad_replicate p x)"
| "any_pad_replicate p (ComplexT x) = map_sum id ComplexT (pad_replicate p x)"

section \<open>The modules that \<open>lib/nets.py\<close> builds on\<close>

text \<open>
  \<open>lib/layers.py\<close> and the tensor library's \<open>nn.Conv2d\<close> are not part of the sources.
  A module in inference mode is a function from tensors to tensors that may raise; the
  module classes are taken as parameters: each field is the constructor of one class,
  applied to the learned parameters of the instance (of an abstract type \<open>'w\<close>) and to
  the constructor's arguments. The learned parameters of a network are looked up by
  the module's path, as in a state dict.
\<close>

type_synonym module = "real tensor \<Rightarrow> error + real tensor"

record 'w layers =
  Conv2DBNActiv :: "'w \<Rightarrow> nat \<Rightarrow> nat \<Rightarrow> nat \<Rightarrow> nat \<Rightarrow> nat \<Rightarrow> module"
  Encoder :: "'w \<Rightarrow> nat \<Rightarrow> nat \<Rightarrow> nat \<Rightarrow> nat \<Rightarrow> nat \<Rightarrow> module"
  Decoder :: "'w \<Rightarrow> nat \<Rightarrow> nat \<Rightarrow> nat \<Rightarrow> nat \<Rightarrow> nat \<Rightarrow>
                real tensor \<Rightarrow> real tensor \<Rightarrow> error + real tensor"
  ASPPModule :: "'w \<Rightarrow> nat \<Rightarrow> nat \<Rightarrow> (nat \<times> nat) list \<Rightarrow> bool \<Rightarrow> module"
  LSTMModule :: "'w \<Rightarrow> nat \<Rightarrow> nat \<Rightarrow> nat \<Rightarrow> module"
  Conv2d :: "'w \<Rightarrow> nat \<Rightarrow> nat \<Rightarrow> nat \<Rightarrow> module"

definition sub :: "string \<Rightarrow> (string \<Rightarrow> 'w) \<Rightarrow> string \<Rightarrow> 'w" where
  "sub prefix w k = w (prefix @ ''.'' @ k)"

definition Sequential :: "module \<Rightarrow> module \<Rightarrow> module" where
  "Sequential f g x = sbind (f x) g"

section \<open>BaseNet\<close>

record BaseNet =
  enc1 :: module
  enc2 :: module
  enc3 :: module
  enc4 :: module
  enc5 :: module
  aspp :: module
  dec4 :: "real tensor \<Rightarrow> real tensor \<Rightarrow> error + real tensor"
  dec3 :: "real tensor \<Rightarrow> real tensor \<Rightarrow> error + real tensor"
  dec2 :: "real tensor \<Rightarrow> real tensor \<Rightarrow> error + real tensor"
  lstm_dec2 :: module
  dec1 :: "real tensor \<Rightarrow> real tensor \<Rightarrow> error + real tensor"

definition default_dilations :: "(nat \<times> nat) list" where
  "default_dilations = [(4, 2), (8, 4), (12, 6)]"

definition BaseNet_init ::
  "'w layers \<Rightarrow> (string \<Rightarrow> 'w) \<Rightarrow> nat \<Rightarrow> nat \<Rightarrow> nat \<Rightarrow> nat \<Rightarrow> (nat \<times> nat) list \<Rightarrow> BaseNet"
where
  "BaseNet_init L w nin nout n_in_lstm n_out_lstm dilations =
     \<lparr>enc1 = Conv2DBNActiv L (w ''enc1'') nin nout 3 1 1,
      enc2 = Encoder L (w ''enc2'') nout (nout * 2) 3 2 1,
      enc3 = Encoder L (w ''enc3'') (nout * 2) (nout * 4) 3 2 1,
      enc4 = Encoder L (w ''enc4'') (nout * 4) (nout * 6) 3 2 1,
      enc5 = Encoder L (w ''enc5'') (nout * 6) (nout * 8) 3 2 1,
      aspp = ASPPModule L (w ''aspp'') (nout * 8) (nout * 8) dilations True,
      dec4 = Decoder L (w ''dec4'') (nout * (6 + 8)) (nout * 6) 3 1 1,
      dec3 = Decoder L (w ''dec3'') (nout * (4 + 6)) (nout * 4) 3 1 1,
      dec2 = Decoder L (w ''dec2'') (nout * (2 + 4)) (nout * 2) 3 1 1,
      lstm_dec2 = LSTMModule L (w ''lstm_dec2'') (nout * 2) n_in_lstm n_out_lstm,
      dec1 = Decoder L (w ''dec1'') (nout * (1 + 2) + 1) (nout * 1) 3 1 1\<rparr>"

definition BaseNet_call :: "BaseNet \<Rightarrow> module" where
  "BaseNet_call net x =
     sbind (enc1 net x) (\<lambda>e1.
     sbind (enc2 net e1) (\<lambda>e2.
     sbind (enc3 net e2) (\<lambda>e3.
     sbind (enc4 net e3) (\<lambda>e4.
     sbind (enc5 net e4) (\<lambda>e5.
     sbind (aspp net e5) (\<lambda>h.
     sbind (dec4 net h e4) (\<lambda>h.
     sbind (dec3 net h e3) (\<lambda>h.
     sbind (dec2 net h e2) (\<lambda>h.
     sbind (lstm_dec2 net h) (\<lambda>l.
     sbind (cat_dim1 [h, l]) (\<lambda>h.
     dec1 net h e1)))))))))))"

section \<open>CascadedNet\<close>

record CascadedNet =
  n_fft :: nat
  hop_length :: nat
  is_complex :: bool
  max_bin :: nat
  output_bin :: nat
  nin_lstm :: nat
  offset :: nat
  stg1_low_band_net :: module
  stg1_high_band_net :: module
  stg2_low_band_net :: module
  stg2_high_band_net :: module
  stg3_full_band_net :: module
  out_y :: module
  out_v :: module

definition CascadedNet_init ::
  "'w layers \<Rightarrow> (string \<Rightarrow> 'w) \<Rightarrow> nat \<Rightarrow> nat \<Rightarrow> nat \<Rightarrow> nat \<Rightarrow> bool \<Rightarrow> CascadedNet"
where
  "CascadedNet_init L w nfft hop nout n_out_lstm cplx =
     (let mb = nfft div 2;
          ob = nfft div 2 + 1;
          nl = mb div 2;
          nin = (if cplx then 4 else 2)
      in \<lparr>n_fft = nfft, hop_length = hop, is_complex = cplx,
          max_bin = mb, output_bin = ob, nin_lstm = nl, offset = 64,
          stg1_low_band_net = Sequential
            (BaseNet_call (BaseNet_init L (sub ''stg1_low_band_net.0'' w)
               nin (nout div 2) (nl div 2) n_out_lstm default_dilations))
            (Conv2DBNActiv L (w ''stg1_low_band_net.1'') (nout div 2) (nout div 4) 1 1 0),
          stg1_high_band_net =
            BaseNet_call (BaseNet_init L (sub ''stg1_high_band_net'' w)
               nin (nout div 4) (nl div 2) (n_out_lstm div 2) default_dilations),
          stg2_low_band_net = Sequential
            (BaseNet_call (BaseNet_init L (sub ''stg2_low_band_net.0'' w)
               (nout div 4 + nin) nout (nl div 2) n_out_lstm default_dilations))
            (Conv2DBNActiv L (w ''stg2_low_band_net.1'') nout (nout div 2) 1 1 0),
          stg2_high_band_net =
            BaseNet_call (BaseNet_init L (sub ''stg2_high_band_net'' w)
               (nout div 4 + nin) (nout div 2) (nl div 2) (n_out_lstm div 2) default_dilations),
          stg3_full_band_net =
            BaseNet_call (BaseNet_init L (sub ''stg3_full_band_net'' w)
               (3 * nout div 4 + nin) nout nl n_out_lstm default_dilations),
          out_y = Conv2d L (w ''out_y'') nout nin 1,
          out_v = Conv2d L (w ''out_v'') nout nin 1\<rparr>)"

text \<open>The values a forward pass computes between the truncation of the frequency axis
  and the full-band network (lines 86 to 102), under the names the source gives them;
  \<open>x_cut\<close> is the truncated input, which the source stores back into \<open>x\<close>.\<close>

record stages =
  x_cut :: "real tensor"
  bandw :: nat
  l1_in :: "real tensor"
  h1_in :: "real tensor"
  l1 :: "real tensor"
  h1 :: "real tensor"
  aux1 :: "real tensor"
  l2_in :: "real tensor"
  h2_in :: "real tensor"
  l2 :: "real tensor"
  h2 :: "real tensor"
  aux2 :: "real tensor"
  f3_in :: "real tensor"
  f3 :: "real tensor"

text \<open>Lines 88 to 90: the band width and the two bands of a tensor.\<close>

definition band_split :: "'a tensor \<Rightarrow> nat \<times> 'a tensor \<times> 'a tensor" where
  "band_split x =
     (let bw = size2 x div 2 in (bw, slice_dim2_to bw x, slice_dim2_from bw x))"

definition cascade :: "CascadedNet \<Rightarrow> real tensor \<Rightarrow> error + stages" where
  "cascade net x0 =
     (let x = slice_dim2_to (max_bin net) x0;
          bands = band_split x;
          bw = fst bands;
          l1i = fst (snd bands);
          h1i = snd (snd bands)
      in
      sbind (stg1_low_band_net net l1i) (\<lambda>l1o.
      sbind (stg1_high_band_net net h1i) (\<lambda>h1o.
      sbind (cat_dim2 [l1o, h1o]) (\<lambda>a1.
      sbind (cat_dim1 [l1i, l1o]) (\<lambda>l2i.
      sbind (cat_dim1 [h1i, h1o]) (\<lambda>h2i.
      sbind (stg2_low_band_net net l2i) (\<lambda>l2o.
      sbind (stg2_high_band_net net h2i) (\<lambda>h2o.
      sbind (cat_dim2 [l2o, h2o]) (\<lambda>a2.
      sbind (cat_dim1 [x, a1, a2]) (\<lambda>f3i.
      sbind (stg3_full_band_net net f3i) (\<lambda>f3o.
      Inr \<lparr>x_cut = x, bandw = bw, l1_in = l1i, h1_in = h1i, l1 = l1o, h1 = h1o,
           aux1 = a1, l2_in = l2i, h2_in = h2i, l2 = l2o, h2 = h2o, aux2 = a2,
           f3_in = f3i, f3 = f3o\<rparr>)))))))))))"

text \<open>\<open>bounded_mask(mask, eps)\<close>, one tensor operation at a time as the source has it.\<close>

definition bounded_mask :: "complex tensor \<Rightarrow> real \<Rightarrow> error + complex tensor" where
  "bounded_mask msk eps =
     (let mask_mag = tmap cmod msk in
      sbind (broadcast2 (\<lambda>a b. complex_of_real a * b) (tmap tanh mask_mag) msk) (\<lambda>num.
      broadcast2 (\<lambda>a b. a / complex_of_real b) num (tmap (\<lambda>v. v + eps) mask_mag)))"

definition default_eps :: real where
  "default_eps = 1 / 10 ^ 8"

text \<open>Lines 83 to 84: with \<open>is_complex\<close> the real and the imaginary parts go side by side
  on the channel axis (\<open>x.imag\<close> raises on a real tensor); without it a complex input
  is refused by the first convolution it meets.\<close>

definition to_channels :: "CascadedNet \<Rightarrow> any_tensor \<Rightarrow> error + real tensor" where
  "to_channels net x =
     (if is_complex net
      then (case x of ComplexT z \<Rightarrow> cat_dim1 [tmap Re z, tmap Im z]
                    | RealT z \<Rightarrow> Inl DtypeMismatch)
      else (case x of RealT z \<Rightarrow> Inr z | ComplexT z \<Rightarrow> Inl DtypeMismatch))"

text \<open>Lines 104 to 113.\<close>

definition masks :: "CascadedNet \<Rightarrow> real tensor \<Rightarrow> error + any_tensor \<times> any_tensor" where
  "masks net f =
     (if is_complex net
      then
        sbind (out_y net f) (\<lambda>raw_y.
        sbind (broadcast2 Complex (slice_dim1_to 2 raw_y) (slice_dim1_from 2 raw_y)) (\<lambda>cy.
        sbind (bounded_mask cy default_eps) (\<lambda>mask_y.
        sbind (out_v net f) (\<lambda>raw_v.
        sbind (broadcast2 Complex (slice_dim1_to 2 raw_v) (slice_dim1_from 2 raw_v)) (\<lambda>cv.
        sbind (bounded_mask cv default_eps) (\<lambda>mask_v.
        Inr (ComplexT mask_y, ComplexT mask_v)))))))
      else
        sbind (out_y net f) (\<lambda>raw_y.
        sbind (out_v net f) (\<lambda>raw_v.
        Inr (RealT (tmap sigmoid raw_y), RealT (tmap sigmoid raw_v)))))"

text \<open>Lines 115 to 124.\<close>

definition pad_masks ::
  "CascadedNet \<Rightarrow> any_tensor \<times> any_tensor \<Rightarrow> error + any_tensor \<times> any_tensor" where
  "pad_masks net m =
     sbind (any_pad_replicate (int (output_bin net) - int (any_size2 (fst m))) (fst m)) (\<lambda>mask_y.
     sbind (any_pad_replicate (int (output_bin net) - int (any_size2 (snd m))) (snd m)) (\<lambda>mask_v.
     Inr (mask_y, mask_v)))"

definition forward :: "CascadedNet \<Rightarrow> any_tensor \<Rightarrow> error + any_tensor \<times> any_tensor" where
  "forward net x =
     sbind (to_channels net x) (\<lambda>xr.
     sbind (cascade net xr) (\<lambda>st.
     sbind (masks net (f3 st)) (pad_masks net)))"

definition trim :: "CascadedNet \<Rightarrow> any_tensor \<times> any_tensor \<Rightarrow> error + any_tensor \<times> any_tensor" where
  "trim net p =
     (if offset net > 0
      then (let a = any_slice_dim3_mid (offset net) (fst p);
                b = any_slice_dim3_mid (offset net) (snd p)
            in if any_size3 a > 0 \<and> any_size3 b > 0 then Inr (a, b) else Inl AssertionError)
      else Inr p)"

definition predict_mask :: "CascadedNet \<Rightarrow> any_tensor \<Rightarrow> error + any_tensor \<times> any_tensor" where
  "predict_mask net x = sbind (forward net x) (trim net)"

definition predict :: "CascadedNet \<Rightarrow> any_tensor \<Rightarrow> error + any_tensor \<times> any_tensor" where
  "predict net x =
     sbind (forward net x) (\<lambda>m.
     sbind (torch_mul x (fst m)) (\<lambda>pred_y.
     sbind (torch_mul x (snd m)) (\<lambda>pred_v.
     trim net (pred_y, pred_v))))"

section \<open>What the modules outside \<open>lib/nets.py\<close> guarantee\<close>

text \<open>
  Modelled from the spec: the code of \<open>lib/layers.py\<close> (Conv2DBNActiv, Encoder, Decoder,
  ASPPModule, LSTMModule) is missing, so the shape contracts of sections 4.1 to 4.5 stand
  for it. Each contract promises a result, and its shape, on a well-formed input with
  at least one batch entry, frequency bin and time frame and the declared number of
  channels; it promises nothing on other inputs.
\<close>

definition conv_out :: "nat \<Rightarrow> nat \<Rightarrow> nat \<Rightarrow> nat \<Rightarrow> nat" where
  "conv_out h k s p = (h + 2 * p - k) div s + 1"

definition cdiv :: "nat \<Rightarrow> nat \<Rightarrow> nat" where
  "cdiv h s = (h + s - 1) div s"

text \<open>Modelled from the spec: section 4.1 (ConvBlock), input (B, C_in, H, W) to output
  (B, C_out, H', W') by the standard convolution arithmetic.\<close>

definition Conv2DBNActiv_ok :: "'w layers \<Rightarrow> bool" where
  "Conv2DBNActiv_ok L \<longleftrightarrow>
     (\<forall>w nin nout k s p x.
        1 \<le> nin \<and> 1 \<le> nout \<and> 1 \<le> k \<and> 1 \<le> s \<and> wf_tensor x \<and> 1 \<le> size0 x \<and>
        size1 x = nin \<and> k \<le> size2 x + 2 * p \<and> k \<le> size3 x + 2 * p \<longrightarrow>
        (\<exists>y. Conv2DBNActiv L w nin nout k s p x = Inr y \<and>
             shaped y (size0 x) nout (conv_out (size2 x) k s p) (conv_out (size3 x) k s p)))"

text \<open>Modelled from the spec: section 4.2 (Encoder), input (B, C_in, H, W) to output
  (B, C_out, ceil (H / stride), ceil (W / stride)), for a kernel that the padding
  centres.\<close>

definition Encoder_ok :: "'w layers \<Rightarrow> bool" where
  "Encoder_ok L \<longleftrightarrow>
     (\<forall>w nin nout k s p x.
        1 \<le> nin \<and> 1 \<le> nout \<and> k = 2 * p + 1 \<and> 1 \<le> s \<and> wf_tensor x \<and> 1 \<le> size0 x \<and>
        size1 x = nin \<and> 1 \<le> size2 x \<and> 1 \<le> size3 x \<longrightarrow>
        (\<exists>y. Encoder L w nin nout k s p x = Inr y \<and>
             shaped y (size0 x) nout (cdiv (size2 x) s) (cdiv (size3 x) s)))"

text \<open>Modelled from the spec: section 4.3 (Decoder), a decoder-path tensor (B, C_h, H, W)
  and a skip tensor (B, C_skip, H_skip, W_skip) with H_skip \<ge> H and W_skip \<ge> W give
  (B, C_out, H_skip, W_skip), where C_h + C_skip is the declared input width.\<close>

definition Decoder_ok :: "'w layers \<Rightarrow> bool" where
  "Decoder_ok L \<longleftrightarrow>
     (\<forall>w nin nout k s p h skip.
        1 \<le> nout \<and> k = 2 * p + 1 \<and> s = 1 \<and> wf_tensor h \<and> wf_tensor skip \<and>
        1 \<le> size0 h \<and> size0 skip = size0 h \<and> 1 \<le> size1 h \<and> 1 \<le> size1 skip \<and>
        size1 h + size1 skip = nin \<and>
        1 \<le> size2 h \<and> size2 h \<le> size2 skip \<and> 1 \<le> size3 h \<and> size3 h \<le> size3 skip \<longrightarrow>
        (\<exists>y. Decoder L w nin nout k s p h skip = Inr y \<and>
             shaped y (size0 h) nout (size2 skip) (size3 skip)))"

text \<open>Modelled from the spec: section 4.4 (ASPP module), input (B, C_in, H, W) to output
  (B, C_out, H, W).\<close>

definition ASPPModule_ok :: "'w layers \<Rightarrow> bool" where
  "ASPPModule_ok L \<longleftrightarrow>
     (\<forall>w nin nout dilations dropout x.
        1 \<le> nin \<and> 1 \<le> nout \<and> wf_tensor x \<and> 1 \<le> size0 x \<and>
        size1 x = nin \<and> 1 \<le> size2 x \<and> 1 \<le> size3 x \<longrightarrow>
        (\<exists>y. ASPPModule L w nin nout dilations dropout x = Inr y \<and>
             shaped y (size0 x) nout (size2 x) (size3 x)))"

text \<open>Modelled from the spec: section 4.5 (recurrent bottleneck), input (B, C, H, W) to
  output (B, 1, H_target, W). H_target is the second constructor argument, the only
  reading under which the scenario of section 8 type-checks; the contract is used only
  where the input's H is H_target already and the recurrent width is at least 2.\<close>

definition LSTMModule_ok :: "'w layers \<Rightarrow> bool" where
  "LSTMModule_ok L \<longleftrightarrow>
     (\<forall>w nin_conv n_in n_out x.
        1 \<le> nin_conv \<and> 1 \<le> n_in \<and> 2 \<le> n_out \<and> wf_tensor x \<and> 1 \<le> size0 x \<and>
        size1 x = nin_conv \<and> size2 x = n_in \<and> 1 \<le> size3 x \<longrightarrow>
        (\<exists>y. LSTMModule L w nin_conv n_in n_out x = Inr y \<and>
             shaped y (size0 x) 1 n_in (size3 x)))"

text \<open>The tensor library's \<open>nn.Conv2d(nin, nout, 1, bias=False)\<close>: a convolution with a
  1 by 1 kernel, stride 1 and no padding keeps batch and spatial extents.\<close>

definition Conv2d_ok :: "'w layers \<Rightarrow> bool" where
  "Conv2d_ok L \<longleftrightarrow>
     (\<forall>w nin nout x.
        1 \<le> nin \<and> 1 \<le> nout \<and> wf_tensor x \<and> 1 \<le> size0 x \<and>
        size1 x = nin \<and> 1 \<le> size2 x \<and> 1 \<le> size3 x \<longrightarrow>
        (\<exists>y. Conv2d L w nin nout 1 x = Inr y \<and>
             shaped y (size0 x) nout (size2 x) (size3 x)))"

definition layers_ok :: "'w layers \<Rightarrow> bool" where
  "layers_ok L \<longleftrightarrow>
     Conv2DBNActiv_ok L \<and> Encoder_ok L \<and> Decoder_ok L \<and> ASPPModule_ok L \<and>
     LSTMModule_ok L \<and> Conv2d_ok L"

text \<open>
  The construction parameters for which the channel and band arithmetic of the cascade
  closes: the truncated frequency axis splits into two bands that the recurrent
  modules of stage 1 and 2 accept (\<open>n_fft // 2\<close> is a positive multiple of 4), every
  module has at least one output channel, and the widths of \<open>aux1\<close> and \<open>aux2\<close> add up
  to what the full-band network is declared with.
\<close>

definition valid_config :: "nat \<Rightarrow> nat \<Rightarrow> nat \<Rightarrow> bool" where
  "valid_config nfft nout n_out_lstm \<longleftrightarrow>
     0 < nfft div 2 \<and> 4 dvd nfft div 2 \<and> 4 \<le> nout \<and>
     nout div 4 + nout div 2 = 3 * nout div 4 \<and> 4 \<le> n_out_lstm"

text \<open>An input of the dtype the network was built for, with two channels, \<open>b\<close> batch
  entries, \<open>f\<close> frequency bins and \<open>t\<close> time frames.\<close>

definition valid_input :: "bool \<Rightarrow> any_tensor \<Rightarrow> nat \<Rightarrow> nat \<Rightarrow> nat \<Rightarrow> bool" where
  "valid_input cplx x b f t \<longleftrightarrow>
     1 \<le> b \<and> 1 \<le> t \<and>
     (case x of RealT z \<Rightarrow> \<not> cplx \<and> shaped z b 2 f t
              | ComplexT z \<Rightarrow> cplx \<and> shaped z b 2 f t)"

fun any_wf :: "any_tensor \<Rightarrow> bool" where
  "any_wf (RealT x) = wf_tensor x"
| "any_wf (ComplexT x) = wf_tensor x"

fun is_complexT :: "any_tensor \<Rightarrow> bool" where
  "is_complexT (RealT x) = False"
| "is_complexT (ComplexT x) = True"

text \<open>The row of a tensor at batch entry \<open>i\<close>, channel \<open>j\<close> and frequency bin \<open>k\<close>,
  along the time axis.\<close>

fun any_freq_row :: "any_tensor \<Rightarrow> nat \<Rightarrow> nat \<Rightarrow> nat \<Rightarrow> complex list" where
  "any_freq_row (RealT x) i j k = map complex_of_real (elems x ! i ! j ! k)"
| "any_freq_row (ComplexT x) i j k = elems x ! i ! j ! k"

section \<open>The mask activation in the words of the specification\<close>

text \<open>
  Step 8 of section 4.7 and the normalisation of section 3, written from the
  specification's sentences, to be compared with \<open>masks\<close>: the first half of the
  channels of a raw mask is the real part and the second half the imaginary part, each
  element \<open>m\<close> becomes \<open>m * tanh(|m|) / (|m| + eps)\<close> with \<open>eps = 1e-8\<close>; in magnitude mode
  each element goes through the sigmoid.
\<close>

definition spec_complex_of :: "real tensor \<Rightarrow> complex tensor" where
  "spec_complex_of raw =
     \<lparr>size0 = size0 raw, size1 = size1 raw div 2, size2 = size2 raw, size3 = size3 raw,
      elems = map (\<lambda>chs. map2 (map2 (map2 Complex))
                 (take (size1 raw div 2) chs) (drop (size1 raw div 2) chs)) (elems raw)\<rparr>"

definition spec_bounded :: "complex \<Rightarrow> complex" where
  "spec_bounded m =
     m * complex_of_real (tanh (cmod m)) / (complex_of_real (cmod m) + complex_of_real (1 / 10 ^ 8))"

definition spec_mask :: "bool \<Rightarrow> real tensor \<Rightarrow> any_tensor" where
  "spec_mask cplx raw =
     (if cplx then ComplexT (tmap spec_bounded (spec_complex_of raw))
      else RealT (tmap sigmoid raw))"

section \<open>The input that the specification multiplies by the mask\<close>

text \<open>
  Section 8 describes the output of \<open>predict\<close> as the product of the mask with the input
  "truncated to max_bin then padded": the input cut to its first \<open>max_bin\<close> frequency
  bins and padded back to \<open>output_bin\<close> bins, by replication as the masks are, or by
  zeros.
\<close>

datatype pad_mode = Replicate | Zeros

definition pad_fill :: "'a \<Rightarrow> nat \<Rightarrow> 'a tensor \<Rightarrow> 'a tensor" where
  "pad_fill v p x =
     x\<lparr>size2 := size2 x + p,
       elems := map (map (\<lambda>rows. rows @ replicate p (replicate (size3 x) v))) (elems x)\<rparr>"

definition pad_back :: "pad_mode \<Rightarrow> CascadedNet \<Rightarrow> 'a::zero tensor \<Rightarrow> error + 'a tensor" where
  "pad_back mode net z =
     (case mode of
        Replicate \<Rightarrow> pad_replicate (int (output_bin net) - int (size2 z)) z
      | Zeros \<Rightarrow> Inr (pad_fill 0 (output_bin net - size2 z) z))"

definition truncated_then_padded ::
  "pad_mode \<Rightarrow> CascadedNet \<Rightarrow> any_tensor \<Rightarrow> error + any_tensor" where
  "truncated_then_padded mode net x =
     (case x of
        RealT z \<Rightarrow> map_sum id RealT (pad_back mode net (slice_dim2_to (max_bin net) z))
      | ComplexT z \<Rightarrow> map_sum id ComplexT (pad_back mode net (slice_dim2_to (max_bin net) z)))"

text \<open>
  The output of \<open>predict\<close> in the words of section 8: the product of that input,
  trimmed on the time axis as the masks are, with each mask that \<open>predict_mask\<close>
  returns.
\<close>

definition spec_predict ::
  "pad_mode \<Rightarrow> CascadedNet \<Rightarrow> any_tensor \<Rightarrow> error + any_tensor \<times> any_tensor" where
  "spec_predict mode net x =
     sbind (predict_mask net x) (\<lambda>m.
     sbind (truncated_then_padded mode net x) (\<lambda>xp.
     sbind (torch_mul (any_slice_dim3_mid (offset net) xp) (fst m)) (\<lambda>pred_y.
     sbind (torch_mul (any_slice_dim3_mid (offset net) xp) (snd m)) (\<lambda>pred_v.
     Inr (pred_y, pred_v)))))"

section \<open>A concrete network\<close>

text \<open>
  Modelled from the spec: an instance of the missing modules that meets the contracts
  above, the one whose learned parameters are all zero: every module returns zeros of
  the shape its contract gives, and refuses an input whose channel count (for the
  recurrent module, also whose frequency extent) is not the declared one.
\<close>

definition full :: "'a \<Rightarrow> nat \<Rightarrow> nat \<Rightarrow> nat \<Rightarrow> nat \<Rightarrow> 'a tensor" where
  "full v b c h w =
     \<lparr>size0 = b, size1 = c, size2 = h, size3 = w,
      elems = replicate b (replicate c (replicate h (replicate w v)))\<rparr>"

definition zero_layers :: "unit layers" where
  "zero_layers =
     \<lparr>Conv2DBNActiv = (\<lambda>w nin nout k s p x.
        if size1 x = nin
        then Inr (full 0 (size0 x) nout (conv_out (size2 x) k s p) (conv_out (size3 x) k s p))
        else Inl ShapeMismatch),
      Encoder = (\<lambda>w nin nout k s p x.
        if size1 x = nin
        then Inr (full 0 (size0 x) nout (cdiv (size2 x) s) (cdiv (size3 x) s))
        else Inl ShapeMismatch),
      Decoder = (\<lambda>w nin nout k s p h skip.
        if size0 h = size0 skip \<and> size1 h + size1 skip = nin
        then Inr (full 0 (size0 h) nout (size2 skip) (size3 skip))
        else Inl ShapeMismatch),
      ASPPModule = (\<lambda>w nin nout dilations dropout x.
        if size1 x = nin
        then Inr (full 0 (size0 x) nout (size2 x) (size3 x))
        else Inl ShapeMismatch),
      LSTMModule = (\<lambda>w nin_conv n_in n_out x.
        if size1 x = nin_conv \<and> size2 x = n_in
        then Inr (full 0 (size0 x) 1 n_in (size3 x))
        else Inl ShapeMismatch),
      Conv2d = (\<lambda>w nin nout k x.
        if size1 x = nin
        then Inr (full 0 (size0 x) nout (size2 x) (size3 x))
        else Inl ShapeMismatch)\<rparr>"

definition no_weights :: "string \<Rightarrow> unit" where
  "no_weights k = ()"

text \<open>
  A concrete input of \<open>n + 1\<close> frequency bins and two channels: the first \<open>n\<close> bins
  hold \<open>v\<close> in every frame, the top bin holds \<open>v'\<close>.
\<close>

definition top_bin_input :: "'a \<Rightarrow> 'a \<Rightarrow> nat \<Rightarrow> nat \<Rightarrow> nat \<Rightarrow> 'a tensor" where
  "top_bin_input v v' b n t =
     \<lparr>size0 = b, size1 = 2, size2 = n + 1, size3 = t,
      elems = replicate b (replicate 2 (replicate n (replicate t v) @ [replicate t v']))\<rparr>"

section \<open>Basic facts about the tensor primitives\<close>

lemma sbind_Inr [simp]: "sbind (Inr v) f = f v" by (simp add: sbind_def)
lemma sbind_Inl [simp]: "sbind (Inl e) f = Inl e" by (simp add: sbind_def)

lemma sbind_eq_Inr: "sbind m f = Inr r \<longleftrightarrow> (\<exists>v. m = Inr v \<and> f v = Inr r)"
  by (cases m) simp_all

lemma in_set_map2E:
  assumes "a \<in> set (map2 f xs ys)"
  obtains u v where "u \<in> set xs" "v \<in> set ys" "a = f u v"
proof -
  from assms obtain p where p: "p \<in> set (zip xs ys)" "a = (case p of (u, v) \<Rightarrow> f u v)"
    by auto
  obtain u v where uv: "p = (u, v)" by (cases p)
  with p have "u \<in> set xs" "v \<in> set ys" "a = f u v"
    by (auto dest: set_zip_leftD set_zip_rightD)
  then show thesis by (rule that)
qed

lemma rect2_append: "rect2 h w a \<Longrightarrow> rect2 h' w b \<Longrightarrow> rect2 (h + h') w (a @ b)"
  by (auto simp: rect2_def)

lemma rect2_take: "rect2 h w a \<Longrightarrow> rect2 (min n h) w (take n a)"
  by (auto simp: rect2_def dest: in_set_takeD)

lemma rect2_drop: "rect2 h w a \<Longrightarrow> rect2 (h - n) w (drop n a)"
  by (auto simp: rect2_def dest: in_set_dropD)

lemma rect2_map:
  "rect2 h w a \<Longrightarrow> (\<And>r. length r = w \<Longrightarrow> length (f r) = w') \<Longrightarrow> rect2 h w' (map f a)"
  by (auto simp: rect2_def)

lemma rect2_replicate: "length r = w \<Longrightarrow> rect2 n w (replicate n r)"
  by (auto simp: rect2_def)

lemma rect3_append: "rect3 c h w a \<Longrightarrow> rect3 c' h w b \<Longrightarrow> rect3 (c + c') h w (a @ b)"
  by (auto simp: rect3_def)

lemma rect3_take: "rect3 c h w a \<Longrightarrow> rect3 (min n c) h w (take n a)"
  by (auto simp: rect3_def dest: in_set_takeD)

lemma rect3_drop: "rect3 c h w a \<Longrightarrow> rect3 (c - n) h w (drop n a)"
  by (auto simp: rect3_def dest: in_set_dropD)

lemma rect3_map:
  "rect3 c h w a \<Longrightarrow> (\<And>ch. rect2 h w ch \<Longrightarrow> rect2 h' w' (f ch)) \<Longrightarrow> rect3 c h' w' (map f a)"
  by (auto simp: rect3_def)

lemma rect3_map2:
  "rect3 c h w a \<Longrightarrow> rect3 c h' w b \<Longrightarrow> rect3 c (h + h') w (map2 (@) a b)"
  by (auto simp: rect3_def intro!: rect2_append dest: set_zip_leftD set_zip_rightD)

lemma wf_map:
  "wf_tensor x \<Longrightarrow> (\<And>b. rect3 (size1 x) (size2 x) (size3 x) b \<Longrightarrow> rect3 c h w (f b)) \<Longrightarrow>
   wf_tensor (x\<lparr>size1 := c, size2 := h, size3 := w, elems := map f (elems x)\<rparr>)"
  by (auto simp: wf_tensor_def)

lemma shaped_wf: "shaped x b c h w \<Longrightarrow> wf_tensor x" by (simp add: shaped_def)

lemma wf_tmap: "wf_tensor x \<Longrightarrow> wf_tensor (tmap f x)"
  by (auto simp: wf_tensor_def tmap_def rect3_def rect2_def)

lemma tmap_sizes [simp]:
  "size0 (tmap f x) = size0 x" "size1 (tmap f x) = size1 x"
  "size2 (tmap f x) = size2 x" "size3 (tmap f x) = size3 x"
  by (simp_all add: tmap_def)

lemma wf_slice_dim2_to: "wf_tensor x \<Longrightarrow> wf_tensor (slice_dim2_to n x)"
  by (auto simp: wf_tensor_def slice_dim2_to_def rect3_def intro: rect2_take)

lemma wf_slice_dim2_from: "wf_tensor x \<Longrightarrow> wf_tensor (slice_dim2_from n x)"
  by (auto simp: wf_tensor_def slice_dim2_from_def rect3_def intro: rect2_drop)

lemma wf_slice_dim1_to: "wf_tensor x \<Longrightarrow> wf_tensor (slice_dim1_to n x)"
  by (auto simp: wf_tensor_def slice_dim1_to_def intro: rect3_take)

lemma wf_slice_dim1_from: "wf_tensor x \<Longrightarrow> wf_tensor (slice_dim1_from n x)"
  by (auto simp: wf_tensor_def slice_dim1_from_def intro: rect3_drop)

lemma wf_slice_dim3_mid: "wf_tensor x \<Longrightarrow> wf_tensor (slice_dim3_mid n x)"
  by (auto simp: wf_tensor_def slice_dim3_mid_def rect3_def rect2_def)

lemma slice_sizes [simp]:
  "size0 (slice_dim2_to n x) = size0 x" "size1 (slice_dim2_to n x) = size1 x"
  "size2 (slice_dim2_to n x) = min n (size2 x)" "size3 (slice_dim2_to n x) = size3 x"
  "size0 (slice_dim2_from n x) = size0 x" "size1 (slice_dim2_from n x) = size1 x"
  "size2 (slice_dim2_from n x) = size2 x - n" "size3 (slice_dim2_from n x) = size3 x"
  "size0 (slice_dim1_to n x) = size0 x" "size1 (slice_dim1_to n x) = min n (size1 x)"
  "size2 (slice_dim1_to n x) = size2 x" "size3 (slice_dim1_to n x) = size3 x"
  "size0 (slice_dim1_from n x) = size0 x" "size1 (slice_dim1_from n x) = size1 x - n"
  "size2 (slice_dim1_from n x) = size2 x" "size3 (slice_dim1_from n x) = size3 x"
  by (simp_all add: slice_dim2_to_def slice_dim2_from_def slice_dim1_to_def slice_dim1_from_def)

lemma slice_dim3_mid_sizes [simp]:
  "size0 (slice_dim3_mid n x) = size0 x" "size1 (slice_dim3_mid n x) = size1 x"
  "size2 (slice_dim3_mid n x) = size2 x"
  "size3 (slice_dim3_mid n x) = (if n = 0 then 0 else size3 x - 2 * n)"
  by (simp_all add: slice_dim3_mid_def)

lemma wf_cat2_dim1:
  assumes "wf_tensor x" "wf_tensor y" "cat2_dim1 x y = Inr z"
  shows "wf_tensor z"
proof -
  from assms(3) have eq: "size0 x = size0 y" "size2 x = size2 y" "size3 x = size3 y"
    and z: "z = x\<lparr>size1 := size1 x + size1 y, elems := map2 (@) (elems x) (elems y)\<rparr>"
    by (auto simp: cat2_dim1_def split: if_splits)
  show ?thesis
    unfolding wf_tensor_def z using assms(1,2) eq
    by (auto simp: wf_tensor_def intro!: rect3_append dest: set_zip_leftD set_zip_rightD)
qed

lemma wf_cat2_dim2:
  assumes "wf_tensor x" "wf_tensor y" "cat2_dim2 x y = Inr z"
  shows "wf_tensor z"
proof -
  from assms(3) have eq: "size0 x = size0 y" "size1 x = size1 y" "size3 x = size3 y"
    and z: "z = x\<lparr>size2 := size2 x + size2 y, elems := map2 (map2 (@)) (elems x) (elems y)\<rparr>"
    by (auto simp: cat2_dim2_def split: if_splits)
  show ?thesis
    unfolding wf_tensor_def z using assms(1,2) eq
    by (auto simp: wf_tensor_def intro!: rect3_map2 dest: set_zip_leftD set_zip_rightD)
qed

lemma cat2_dim1_shaped:
  "shaped x b c h w \<Longrightarrow> shaped y b c' h w \<Longrightarrow>
   \<exists>z. cat2_dim1 x y = Inr z \<and> shaped z b (c + c') h w"
  using wf_cat2_dim1[of x y]
  by (auto simp: shaped_def cat2_dim1_def)

lemma cat2_dim2_shaped:
  "shaped x b c h w \<Longrightarrow> shaped y b c h' w \<Longrightarrow>
   \<exists>z. cat2_dim2 x y = Inr z \<and> shaped z b c (h + h') w"
  using wf_cat2_dim2[of x y]
  by (auto simp: shaped_def cat2_dim2_def)

section \<open>Shapes through the modules and through BaseNet\<close>

lemma cdiv2_pos: "1 \<le> h \<Longrightarrow> 1 \<le> cdiv h 2"
  unfolding cdiv_def by simp

lemma cdiv2_le: "cdiv h 2 \<le> h"
  unfolding cdiv_def by simp

lemma conv_out_311: "1 \<le> h \<Longrightarrow> conv_out h 3 1 1 = h"
  unfolding conv_out_def by simp

lemma conv_out_110: "1 \<le> h \<Longrightarrow> conv_out h 1 1 0 = h"
  unfolding conv_out_def by simp

lemma Conv2DBNActiv_okD:
  "layers_ok L \<Longrightarrow> 1 \<le> nin \<Longrightarrow> 1 \<le> nout \<Longrightarrow> 1 \<le> k \<Longrightarrow> 1 \<le> s \<Longrightarrow> wf_tensor x \<Longrightarrow>
   1 \<le> size0 x \<Longrightarrow> size1 x = nin \<Longrightarrow> k \<le> size2 x + 2 * p \<Longrightarrow> k \<le> size3 x + 2 * p \<Longrightarrow>
   \<exists>y. Conv2DBNActiv L wt nin nout k s p x = Inr y \<and>
       shaped y (size0 x) nout (conv_out (size2 x) k s p) (conv_out (size3 x) k s p)"
  unfolding layers_ok_def Conv2DBNActiv_ok_def by blast

lemma Encoder_okD:
  "layers_ok L \<Longrightarrow> 1 \<le> nin \<Longrightarrow> 1 \<le> nout \<Longrightarrow> k = 2 * p + 1 \<Longrightarrow> 1 \<le> s \<Longrightarrow> wf_tensor x \<Longrightarrow>
   1 \<le> size0 x \<Longrightarrow> size1 x = nin \<Longrightarrow> 1 \<le> size2 x \<Longrightarrow> 1 \<le> size3 x \<Longrightarrow>
   \<exists>y. Encoder L wt nin nout k s p x = Inr y \<and>
       shaped y (size0 x) nout (cdiv (size2 x) s) (cdiv (size3 x) s)"
  unfolding layers_ok_def Encoder_ok_def by blast

lemma Decoder_okD:
  "layers_ok L \<Longrightarrow> 1 \<le> nout \<Longrightarrow> k = 2 * p + 1 \<Longrightarrow> s = 1 \<Longrightarrow> wf_tensor h \<Longrightarrow> wf_tensor skip \<Longrightarrow>
   1 \<le> size0 h \<Longrightarrow> size0 skip = size0 h \<Longrightarrow> 1 \<le> size1 h \<Longrightarrow> 1 \<le> size1 skip \<Longrightarrow>
   size1 h + size1 skip = nin \<Longrightarrow>
   1 \<le> size2 h \<Longrightarrow> size2 h \<le> size2 skip \<Longrightarrow> 1 \<le> size3 h \<Longrightarrow> size3 h \<le> size3 skip \<Longrightarrow>
   \<exists>y. Decoder L wt nin nout k s p h skip = Inr y \<and>
       shaped y (size0 h) nout (size2 skip) (size3 skip)"
  unfolding layers_ok_def Decoder_ok_def by blast

lemma ASPPModule_okD:
  "layers_ok L \<Longrightarrow> 1 \<le> nin \<Longrightarrow> 1 \<le> nout \<Longrightarrow> wf_tensor x \<Longrightarrow> 1 \<le> size0 x \<Longrightarrow>
   size1 x = nin \<Longrightarrow> 1 \<le> size2 x \<Longrightarrow> 1 \<le> size3 x \<Longrightarrow>
   \<exists>y. ASPPModule L wt nin nout dil dr x = Inr y \<and> shaped y (size0 x) nout (size2 x) (size3 x)"
  unfolding layers_ok_def ASPPModule_ok_def by blast

lemma LSTMModule_okD:
  "layers_ok L \<Longrightarrow> 1 \<le> nin_conv \<Longrightarrow> 1 \<le> n_in \<Longrightarrow> 2 \<le> n_out \<Longrightarrow> wf_tensor x \<Longrightarrow>
   1 \<le> size0 x \<Longrightarrow> size1 x = nin_conv \<Longrightarrow> size2 x = n_in \<Longrightarrow> 1 \<le> size3 x \<Longrightarrow>
   \<exists>y. LSTMModule L wt nin_conv n_in n_out x = Inr y \<and> shaped y (size0 x) 1 n_in (size3 x)"
  unfolding layers_ok_def LSTMModule_ok_def by blast

lemma Conv2d_okD:
  "layers_ok L \<Longrightarrow> 1 \<le> nin \<Longrightarrow> 1 \<le> nout \<Longrightarrow> wf_tensor x \<Longrightarrow> 1 \<le> size0 x \<Longrightarrow>
   size1 x = nin \<Longrightarrow> 1 \<le> size2 x \<Longrightarrow> 1 \<le> size3 x \<Longrightarrow>
   \<exists>y. Conv2d L wt nin nout 1 x = Inr y \<and> shaped y (size0 x) nout (size2 x) (size3 x)"
  unfolding layers_ok_def Conv2d_ok_def by blast

lemma Conv2DBNActiv_311:
  assumes "layers_ok L" "shaped x b nin h w" "1 \<le> nin" "1 \<le> nout" "1 \<le> b" "1 \<le> h" "1 \<le> w"
  shows "\<exists>y. Conv2DBNActiv L wt nin nout 3 1 1 x = Inr y \<and> shaped y b nout h w"
  using Conv2DBNActiv_okD[of L nin nout 3 1 x 1 wt] assms
  by (simp add: shaped_def conv_out_def)

lemma Conv2DBNActiv_110:
  assumes "layers_ok L" "shaped x b nin h w" "1 \<le> nin" "1 \<le> nout" "1 \<le> b" "1 \<le> h" "1 \<le> w"
  shows "\<exists>y. Conv2DBNActiv L wt nin nout 1 1 0 x = Inr y \<and> shaped y b nout h w"
  using Conv2DBNActiv_okD[of L nin nout 1 1 x 0 wt] assms
  by (simp add: shaped_def conv_out_def)

lemma Encoder_321:
  assumes "layers_ok L" "shaped x b nin h w" "1 \<le> nin" "1 \<le> nout" "1 \<le> b" "1 \<le> h" "1 \<le> w"
  shows "\<exists>y. Encoder L wt nin nout 3 2 1 x = Inr y \<and> shaped y b nout (cdiv h 2) (cdiv w 2)"
  using Encoder_okD[of L nin nout 3 1 2 x wt] assms
  by (simp add: shaped_def)

lemma Decoder_311:
  assumes "layers_ok L" "shaped hh b c1 h w" "shaped skip b c2 h' w'" "c1 + c2 = nin"
    "1 \<le> c1" "1 \<le> c2" "1 \<le> nout" "1 \<le> b" "1 \<le> h" "h \<le> h'" "1 \<le> w" "w \<le> w'"
  shows "\<exists>y. Decoder L wt nin nout 3 1 1 hh skip = Inr y \<and> shaped y b nout h' w'"
  using Decoder_okD[of L nout 3 1 1 hh skip nin wt] assms
  by (simp add: shaped_def)

lemma ASPPModule_shaped:
  assumes "layers_ok L" "shaped x b nin h w" "1 \<le> nin" "1 \<le> nout" "1 \<le> b" "1 \<le> h" "1 \<le> w"
  shows "\<exists>y. ASPPModule L wt nin nout dil dr x = Inr y \<and> shaped y b nout h w"
  using ASPPModule_okD[of L nin nout x wt dil dr] assms
  by (simp add: shaped_def)

lemma LSTMModule_shaped:
  assumes "layers_ok L" "shaped x b c h w" "1 \<le> c" "2 \<le> n_out" "1 \<le> b" "1 \<le> h" "1 \<le> w"
  shows "\<exists>y. LSTMModule L wt c h n_out x = Inr y \<and> shaped y b 1 h w"
  using LSTMModule_okD[of L c h n_out x wt] assms
  by (simp add: shaped_def)

lemma Conv2d_shaped:
  assumes "layers_ok L" "shaped x b nin h w" "1 \<le> nin" "1 \<le> nout" "1 \<le> b" "1 \<le> h" "1 \<le> w"
  shows "\<exists>y. Conv2d L wt nin nout 1 x = Inr y \<and> shaped y b nout h w"
  using Conv2d_okD[of L nin nout x wt] assms
  by (simp add: shaped_def)

lemma cat_dim1_pair:
  "shaped x b c h w \<Longrightarrow> shaped y b c' h w \<Longrightarrow>
   \<exists>z. cat_dim1 [x, y] = Inr z \<and> shaped z b (c + c') h w"
  using cat2_dim1_shaped[of x b c h w y c'] by auto

lemma cat_dim2_pair:
  "shaped x b c h w \<Longrightarrow> shaped y b c h' w \<Longrightarrow>
   \<exists>z. cat_dim2 [x, y] = Inr z \<and> shaped z b c (h + h') w"
  using cat2_dim2_shaped[of x b c h w y h'] by auto

lemma cat_dim1_triple:
  assumes "shaped x b c h w" "shaped y b c' h w" "shaped z b c'' h w"
  shows "\<exists>r. cat_dim1 [x, y, z] = Inr r \<and> shaped r b (c + c' + c'') h w"
proof -
  from cat2_dim1_shaped[OF assms(1,2)] obtain u where
    u: "cat2_dim1 x y = Inr u" "shaped u b (c + c') h w" by blast
  from cat_dim1_pair[OF u(2) assms(3)] u(1) show ?thesis by simp
qed

lemma BaseNet_shaped:
  assumes L: "layers_ok L"
    and x: "shaped x b nin h w"
    and n: "1 \<le> nin" "1 \<le> nout" "2 \<le> n_out"
    and d: "1 \<le> b" "1 \<le> h" "1 \<le> w"
    and l: "cdiv h 2 = n_in"
  shows "\<exists>y. BaseNet_call (BaseNet_init L wt nin nout n_in n_out dil) x = Inr y \<and>
             shaped y b nout h w"
proof -
  let ?h2 = "cdiv h 2" let ?w2 = "cdiv w 2"
  let ?h3 = "cdiv ?h2 2" let ?w3 = "cdiv ?w2 2"
  let ?h4 = "cdiv ?h3 2" let ?w4 = "cdiv ?w3 2"
  let ?h5 = "cdiv ?h4 2" let ?w5 = "cdiv ?w4 2"
  have c: "1 \<le> nout * 2" "1 \<le> nout * 4" "1 \<le> nout * 6" "1 \<le> nout * 8" "1 \<le> nout * 1"
    "1 \<le> nout * 2 + 1"
    using n(2) by simp_all
  note p2 = cdiv2_pos[OF d(2)] cdiv2_pos[OF d(3)]
  note p3 = cdiv2_pos[OF p2(1)] cdiv2_pos[OF p2(2)]
  note p4 = cdiv2_pos[OF p3(1)] cdiv2_pos[OF p3(2)]
  note p5 = cdiv2_pos[OF p4(1)] cdiv2_pos[OF p4(2)]
  from Conv2DBNActiv_311[OF L x n(1,2) d] obtain e1 where
    e1: "Conv2DBNActiv L (wt ''enc1'') nin nout 3 1 1 x = Inr e1" "shaped e1 b nout h w"
    by blast
  from Encoder_321[OF L e1(2) n(2) c(1) d] obtain e2 where
    e2: "Encoder L (wt ''enc2'') nout (nout * 2) 3 2 1 e1 = Inr e2"
      "shaped e2 b (nout * 2) ?h2 ?w2"
    by blast
  from Encoder_321[OF L e2(2) c(1) c(2) d(1) p2] obtain e3 where
    e3: "Encoder L (wt ''enc3'') (nout * 2) (nout * 4) 3 2 1 e2 = Inr e3"
      "shaped e3 b (nout * 4) ?h3 ?w3"
    by blast
  from Encoder_321[OF L e3(2) c(2) c(3) d(1) p3] obtain e4 where
    e4: "Encoder L (wt ''enc4'') (nout * 4) (nout * 6) 3 2 1 e3 = Inr e4"
      "shaped e4 b (nout * 6) ?h4 ?w4"
    by blast
  from Encoder_321[OF L e4(2) c(3) c(4) d(1) p4] obtain e5 where
    e5: "Encoder L (wt ''enc5'') (nout * 6) (nout * 8) 3 2 1 e4 = Inr e5"
      "shaped e5 b (nout * 8) ?h5 ?w5"
    by blast
  from ASPPModule_shaped[OF L e5(2) c(4) c(4) d(1) p5] obtain a where
    a: "ASPPModule L (wt ''aspp'') (nout * 8) (nout * 8) dil True e5 = Inr a"
      "shaped a b (nout * 8) ?h5 ?w5"
    by blast
  have "nout * 8 + nout * 6 = nout * (6 + 8)" by simp
  from Decoder_311[OF L a(2) e4(2) this c(4) c(3) c(3) d(1) p5(1) cdiv2_le p5(2) cdiv2_le]
  obtain d4 where
    d4: "Decoder L (wt ''dec4'') (nout * (6 + 8)) (nout * 6) 3 1 1 a e4 = Inr d4"
      "shaped d4 b (nout * 6) ?h4 ?w4"
    by blast
  have "nout * 6 + nout * 4 = nout * (4 + 6)" by simp
  from Decoder_311[OF L d4(2) e3(2) this c(3) c(2) c(2) d(1) p4(1) cdiv2_le p4(2) cdiv2_le]
  obtain d3 where
    d3: "Decoder L (wt ''dec3'') (nout * (4 + 6)) (nout * 4) 3 1 1 d4 e3 = Inr d3"
      "shaped d3 b (nout * 4) ?h3 ?w3"
    by blast
  have "nout * 4 + nout * 2 = nout * (2 + 4)" by simp
  from Decoder_311[OF L d3(2) e2(2) this c(2) c(1) c(1) d(1) p3(1) cdiv2_le p3(2) cdiv2_le]
  obtain d2 where
    d2: "Decoder L (wt ''dec2'') (nout * (2 + 4)) (nout * 2) 3 1 1 d3 e2 = Inr d2"
      "shaped d2 b (nout * 2) ?h2 ?w2"
    by blast
  from LSTMModule_shaped[OF L d2(2) c(1) n(3) d(1) p2] obtain ls where
    ls: "LSTMModule L (wt ''lstm_dec2'') (nout * 2) ?h2 n_out d2 = Inr ls"
      "shaped ls b 1 ?h2 ?w2"
    by blast
  from cat_dim1_pair[OF d2(2) ls(2)] obtain hc where
    hc: "cat_dim1 [d2, ls] = Inr hc" "shaped hc b (nout * 2 + 1) ?h2 ?w2"
    by blast
  have "nout * 2 + 1 + nout = nout * (1 + 2) + 1" by simp
  from Decoder_311[OF L hc(2) e1(2) this c(6) n(2) c(5) d(1) p2(1) cdiv2_le p2(2) cdiv2_le]
  obtain d1 where
    d1: "Decoder L (wt ''dec1'') (nout * (1 + 2) + 1) (nout * 1) 3 1 1 hc e1 = Inr d1"
      "shaped d1 b (nout * 1) h w"
    by blast
  have "BaseNet_call (BaseNet_init L wt nin nout n_in n_out dil) x = Inr d1"
    unfolding BaseNet_call_def BaseNet_init_def
    using e1(1) e2(1) e3(1) e4(1) e5(1) a(1) d4(1) d3(1) d2(1) ls(1) hc(1) d1(1) l
    by (simp del: cat_dim1.simps)
  with d1(2) show ?thesis by simp
qed

section \<open>Shapes through the cascade\<close>

lemma Sequential_shaped:
  assumes "\<exists>y. f x = Inr y \<and> shaped y b c h w"
    and "\<And>y. shaped y b c h w \<Longrightarrow> \<exists>z. g y = Inr z \<and> shaped z b c' h' w'"
  shows "\<exists>z. Sequential f g x = Inr z \<and> shaped z b c' h' w'"
  using assms by (auto simp: Sequential_def)

lemma shaped_slice_dim2_to:
  "shaped x b c h w \<Longrightarrow> shaped (slice_dim2_to n x) b c (min n h) w"
  by (simp add: shaped_def wf_slice_dim2_to)

lemma shaped_slice_dim2_from:
  "shaped x b c h w \<Longrightarrow> shaped (slice_dim2_from n x) b c (h - n) w"
  by (simp add: shaped_def wf_slice_dim2_from)

lemma cascade_dataflow:
  assumes "cascade net x0 = Inr st"
  shows "x_cut st = slice_dim2_to (max_bin net) x0"
    and "bandw st = size2 (x_cut st) div 2"
    and "l1_in st = slice_dim2_to (bandw st) (x_cut st)"
    and "h1_in st = slice_dim2_from (bandw st) (x_cut st)"
    and "stg1_low_band_net net (l1_in st) = Inr (l1 st)"
    and "stg1_high_band_net net (h1_in st) = Inr (h1 st)"
    and "cat_dim2 [l1 st, h1 st] = Inr (aux1 st)"
    and "cat_dim1 [l1_in st, l1 st] = Inr (l2_in st)"
    and "cat_dim1 [h1_in st, h1 st] = Inr (h2_in st)"
    and "stg2_low_band_net net (l2_in st) = Inr (l2 st)"
    and "stg2_high_band_net net (h2_in st) = Inr (h2 st)"
    and "cat_dim2 [l2 st, h2 st] = Inr (aux2 st)"
    and "cat_dim1 [x_cut st, aux1 st, aux2 st] = Inr (f3_in st)"
    and "stg3_full_band_net net (f3_in st) = Inr (f3 st)"
  using assms unfolding cascade_def band_split_def Let_def sbind_eq_Inr
  by (auto simp del: cat_dim1.simps cat_dim2.simps)


lemma CascadedNet_init_fields:
  "n_fft (CascadedNet_init L wt nfft hop nout nol cplx) = nfft"
  "hop_length (CascadedNet_init L wt nfft hop nout nol cplx) = hop"
  "is_complex (CascadedNet_init L wt nfft hop nout nol cplx) = cplx"
  "max_bin (CascadedNet_init L wt nfft hop nout nol cplx) = nfft div 2"
  "output_bin (CascadedNet_init L wt nfft hop nout nol cplx) = nfft div 2 + 1"
  "nin_lstm (CascadedNet_init L wt nfft hop nout nol cplx) = nfft div 2 div 2"
  "offset (CascadedNet_init L wt nfft hop nout nol cplx) = 64"
  by (simp_all add: CascadedNet_init_def Let_def)

lemma CascadedNet_init_nets:
  "stg1_low_band_net (CascadedNet_init L wt nfft hop nout nol cplx) =
     Sequential
       (BaseNet_call (BaseNet_init L (sub ''stg1_low_band_net.0'' wt)
          (if cplx then 4 else 2) (nout div 2) (nfft div 2 div 2 div 2) nol default_dilations))
       (Conv2DBNActiv L (wt ''stg1_low_band_net.1'') (nout div 2) (nout div 4) 1 1 0)"
  "stg1_high_band_net (CascadedNet_init L wt nfft hop nout nol cplx) =
     BaseNet_call (BaseNet_init L (sub ''stg1_high_band_net'' wt)
       (if cplx then 4 else 2) (nout div 4) (nfft div 2 div 2 div 2) (nol div 2)
       default_dilations)"
  "stg2_low_band_net (CascadedNet_init L wt nfft hop nout nol cplx) =
     Sequential
       (BaseNet_call (BaseNet_init L (sub ''stg2_low_band_net.0'' wt)
          (nout div 4 + (if cplx then 4 else 2)) nout (nfft div 2 div 2 div 2) nol
          default_dilations))
       (Conv2DBNActiv L (wt ''stg2_low_band_net.1'') nout (nout div 2) 1 1 0)"
  "stg2_high_band_net (CascadedNet_init L wt nfft hop nout nol cplx) =
     BaseNet_call (BaseNet_init L (sub ''stg2_high_band_net'' wt)
       (nout div 4 + (if cplx then 4 else 2)) (nout div 2) (nfft div 2 div 2 div 2) (nol div 2)
       default_dilations)"
  "stg3_full_band_net (CascadedNet_init L wt nfft hop nout nol cplx) =
     BaseNet_call (BaseNet_init L (sub ''stg3_full_band_net'' wt)
       (3 * nout div 4 + (if cplx then 4 else 2)) nout (nfft div 2 div 2) nol
       default_dilations)"
  "out_y (CascadedNet_init L wt nfft hop nout nol cplx) =
     Conv2d L (wt ''out_y'') nout (if cplx then 4 else 2) 1"
  "out_v (CascadedNet_init L wt nfft hop nout nol cplx) =
     Conv2d L (wt ''out_v'') nout (if cplx then 4 else 2) 1"
  by (simp_all add: CascadedNet_init_def Let_def)

lemma valid_config_arith:
  assumes "valid_config nfft nout nol"
  shows "1 \<le> nfft div 2 div 2 div 2"
    and "cdiv (nfft div 2 div 2) 2 = nfft div 2 div 2 div 2"
    and "nfft div 2 - nfft div 2 div 2 = nfft div 2 div 2"
    and "cdiv (nfft div 2) 2 = nfft div 2 div 2"
    and "nfft div 2 div 2 + nfft div 2 div 2 = nfft div 2"
    and "1 \<le> nfft div 2 div 2" and "1 \<le> nfft div 2"
    and "1 \<le> nout div 4" and "1 \<le> nout div 2" and "1 \<le> nout"
    and "2 \<le> nol" and "2 \<le> nol div 2"
    and "nout div 4 + nout div 2 = 3 * nout div 4"
proof -
  from assms obtain k where k: "nfft div 2 = 4 * k" "0 < k"
    by (auto simp: valid_config_def dvd_def)
  show "1 \<le> nfft div 2 div 2 div 2" "cdiv (nfft div 2 div 2) 2 = nfft div 2 div 2 div 2"
    "nfft div 2 - nfft div 2 div 2 = nfft div 2 div 2"
    "cdiv (nfft div 2) 2 = nfft div 2 div 2"
    "nfft div 2 div 2 + nfft div 2 div 2 = nfft div 2"
    "1 \<le> nfft div 2 div 2" "1 \<le> nfft div 2"
    unfolding k(1) cdiv_def using k(2) by simp_all
  show "1 \<le> nout div 4" "1 \<le> nout div 2" "1 \<le> nout" "2 \<le> nol" "2 \<le> nol div 2"
    "nout div 4 + nout div 2 = 3 * nout div 4"
    using assms unfolding valid_config_def by linarith+
qed


lemma cascade_shaped:
  assumes L: "layers_ok L"
    and cfg: "valid_config nfft nout nol"
    and x: "shaped x b nin f t"
    and nin: "nin = (if cplx then 4 else 2)"
    and d: "1 \<le> b" "1 \<le> t" "nfft div 2 \<le> f"
  obtains st where
    "cascade (CascadedNet_init L wt nfft hop nout nol cplx) x = Inr st"
    "shaped (x_cut st) b nin (nfft div 2) t"
    "bandw st = nfft div 2 div 2"
    "shaped (l1_in st) b nin (nfft div 2 div 2) t"
    "shaped (h1_in st) b nin (nfft div 2 div 2) t"
    "shaped (l1 st) b (nout div 4) (nfft div 2 div 2) t"
    "shaped (h1 st) b (nout div 4) (nfft div 2 div 2) t"
    "shaped (aux1 st) b (nout div 4) (nfft div 2) t"
    "shaped (l2_in st) b (nin + nout div 4) (nfft div 2 div 2) t"
    "shaped (h2_in st) b (nin + nout div 4) (nfft div 2 div 2) t"
    "shaped (l2 st) b (nout div 2) (nfft div 2 div 2) t"
    "shaped (h2 st) b (nout div 2) (nfft div 2 div 2) t"
    "shaped (aux2 st) b (nout div 2) (nfft div 2) t"
    "shaped (f3_in st) b (nin + nout div 4 + nout div 2) (nfft div 2) t"
    "shaped (f3 st) b nout (nfft div 2) t"
proof -
  let ?net = "CascadedNet_init L wt nfft hop nout nol cplx"
  let ?mb = "nfft div 2" let ?bw = "nfft div 2 div 2"
  note a = valid_config_arith[OF cfg]
  have nin1: "1 \<le> nin" using nin by simp
  have nin2: "1 \<le> nout div 4 + nin" using nin by simp
  define xc where "xc = slice_dim2_to ?mb x"
  have xc: "shaped xc b nin ?mb t"
    using shaped_slice_dim2_to[OF x, of ?mb] d(3) by (simp add: xc_def min_def)
  define l1i where "l1i = slice_dim2_to ?bw xc"
  define h1i where "h1i = slice_dim2_from ?bw xc"
  have l1i: "shaped l1i b nin ?bw t"
    using shaped_slice_dim2_to[OF xc, of ?bw] by (simp add: l1i_def min_def)
  have h1i: "shaped h1i b nin ?bw t"
    using shaped_slice_dim2_from[OF xc, of ?bw] a(3) by (simp add: h1i_def)
  from BaseNet_shaped[OF L l1i nin1 a(9) a(11) d(1) a(6) d(2) a(2)] obtain u1 where
    u1: "BaseNet_call (BaseNet_init L (sub ''stg1_low_band_net.0'' wt) nin (nout div 2)
           (nfft div 2 div 2 div 2) nol default_dilations) l1i = Inr u1"
      "shaped u1 b (nout div 2) ?bw t" by blast
  from Conv2DBNActiv_110[OF L u1(2) a(9) a(8) d(1) a(6) d(2)] obtain l1o where
    l1o': "Conv2DBNActiv L (wt ''stg1_low_band_net.1'') (nout div 2) (nout div 4) 1 1 0 u1
             = Inr l1o"
    and l1os: "shaped l1o b (nout div 4) ?bw t" by blast
  have l1o: "stg1_low_band_net ?net l1i = Inr l1o" "shaped l1o b (nout div 4) ?bw t"
    using u1(1) l1o' l1os
    by (simp_all add: CascadedNet_init_nets Sequential_def nin[symmetric])
  have "\<exists>y. stg1_high_band_net ?net h1i = Inr y \<and> shaped y b (nout div 4) ?bw t"
    unfolding CascadedNet_init_nets nin[symmetric]
    by (rule BaseNet_shaped[OF L h1i nin1 a(8) a(12) d(1) a(6) d(2) a(2)])
  then obtain h1o where h1o: "stg1_high_band_net ?net h1i = Inr h1o"
    "shaped h1o b (nout div 4) ?bw t" by blast
  from cat_dim2_pair[OF l1o(2) h1o(2)] obtain a1 where
    a1: "cat_dim2 [l1o, h1o] = Inr a1" "shaped a1 b (nout div 4) ?mb t"
    unfolding a(5) by blast
  from cat_dim1_pair[OF l1i l1o(2)] obtain l2i where
    l2i: "cat_dim1 [l1i, l1o] = Inr l2i" "shaped l2i b (nin + nout div 4) ?bw t" by blast
  from cat_dim1_pair[OF h1i h1o(2)] obtain h2i where
    h2i: "cat_dim1 [h1i, h1o] = Inr h2i" "shaped h2i b (nin + nout div 4) ?bw t" by blast
  have l2i': "shaped l2i b (nout div 4 + nin) ?bw t" using l2i(2) by (simp add: add.commute)
  have h2i': "shaped h2i b (nout div 4 + nin) ?bw t" using h2i(2) by (simp add: add.commute)
  from BaseNet_shaped[OF L l2i' nin2 a(10) a(11) d(1) a(6) d(2) a(2)] obtain u2 where
    u2: "BaseNet_call (BaseNet_init L (sub ''stg2_low_band_net.0'' wt) (nout div 4 + nin) nout
           (nfft div 2 div 2 div 2) nol default_dilations) l2i = Inr u2"
      "shaped u2 b nout ?bw t" by blast
  from Conv2DBNActiv_110[OF L u2(2) a(10) a(9) d(1) a(6) d(2)] obtain l2o where
    l2o': "Conv2DBNActiv L (wt ''stg2_low_band_net.1'') nout (nout div 2) 1 1 0 u2 = Inr l2o"
    and l2os: "shaped l2o b (nout div 2) ?bw t" by blast
  have l2o: "stg2_low_band_net ?net l2i = Inr l2o" "shaped l2o b (nout div 2) ?bw t"
    using u2(1) l2o' l2os
    by (simp_all add: CascadedNet_init_nets Sequential_def nin[symmetric])
  have "\<exists>y. stg2_high_band_net ?net h2i = Inr y \<and> shaped y b (nout div 2) ?bw t"
    unfolding CascadedNet_init_nets nin[symmetric]
    by (rule BaseNet_shaped[OF L h2i' nin2 a(9) a(12) d(1) a(6) d(2) a(2)])
  then obtain h2o where h2o: "stg2_high_band_net ?net h2i = Inr h2o"
    "shaped h2o b (nout div 2) ?bw t" by blast
  from cat_dim2_pair[OF l2o(2) h2o(2)] obtain a2 where
    a2: "cat_dim2 [l2o, h2o] = Inr a2" "shaped a2 b (nout div 2) ?mb t"
    unfolding a(5) by blast
  from cat_dim1_triple[OF xc a1(2) a2(2)] obtain f3i where
    f3i: "cat_dim1 [xc, a1, a2] = Inr f3i"
      "shaped f3i b (nin + nout div 4 + nout div 2) ?mb t" by blast
  have f3i': "shaped f3i b (3 * nout div 4 + nin) ?mb t"
    using f3i(2) a(13) by (simp add: add.commute add.left_commute)
  have nin3: "1 \<le> 3 * nout div 4 + nin" using nin by simp
  have "\<exists>y. stg3_full_band_net ?net f3i = Inr y \<and> shaped y b nout ?mb t"
    unfolding CascadedNet_init_nets nin[symmetric]
    by (rule BaseNet_shaped[OF L f3i' nin3 a(10) a(11) d(1) a(7) d(2) a(4)])
  then obtain f3o where f3o: "stg3_full_band_net ?net f3i = Inr f3o"
    "shaped f3o b nout ?mb t" by blast
  define st where "st = \<lparr>x_cut = xc, bandw = ?bw, l1_in = l1i, h1_in = h1i, l1 = l1o, h1 = h1o,
           aux1 = a1, l2_in = l2i, h2_in = h2i, l2 = l2o, h2 = h2o, aux2 = a2,
           f3_in = f3i, f3 = f3o\<rparr>"
  have sz: "size2 xc = ?mb" using xc by (simp add: shaped_def)
  have "cascade ?net x = Inr st"
    unfolding cascade_def band_split_def Let_def fst_conv snd_conv CascadedNet_init_fields
      xc_def[symmetric] sz l1i_def[symmetric] h1i_def[symmetric]
    using l1o(1) h1o(1) a1(1) l2i(1) h2i(1) l2o(1) h2o(1) a2(1) f3i(1) f3o(1)
    by (simp add: st_def del: cat_dim1.simps cat_dim2.simps)
  then show ?thesis
    using xc l1i h1i l1o(2) h1o(2) a1(2) l2i(2) h2i(2) l2o(2) h2o(2) a2(2) f3i(2) f3o(2)
    by (intro that[of st]) (simp_all add: st_def)
qed

section \<open>Broadcasting on equal shapes\<close>

lemma map2_map_map: "map2 f (map g xs) (map h xs) = map (\<lambda>x. f (g x) (h x)) xs"
  by (induction xs) auto

lemma map2_map_left: "map2 f (map g xs) xs = map (\<lambda>x. f (g x) x) xs"
  by (induction xs) auto

lemma map2_map_right: "map2 f xs (map h xs) = map (\<lambda>x. f x (h x)) xs"
  by (induction xs) auto

lemma bcast_id: "length xs = n \<Longrightarrow> bcast n xs = xs"
  by (cases xs rule: list.exhaust; cases "tl xs") (auto simp: bcast_def split: list.splits)

lemma expand_id:
  assumes "wf_tensor x"
  shows "expand (size0 x) (size1 x) (size2 x) (size3 x) x = elems x"
proof -
  have r: "map (bcast (size3 x)) rs = rs" if "rect2 (size2 x) (size3 x) rs" for rs
    using that by (auto simp: rect2_def bcast_id intro!: map_idI)
  have c: "bcast (size2 x) (map (bcast (size3 x)) rs) = rs"
    if "rect2 (size2 x) (size3 x) rs" for rs
    using that r[OF that] by (simp add: bcast_id rect2_def)
  have b: "bcast (size1 x) (map (\<lambda>rs. bcast (size2 x) (map (bcast (size3 x)) rs)) cs) = cs"
    if "rect3 (size1 x) (size2 x) (size3 x) cs" for cs
  proof -
    have "map (\<lambda>rs. bcast (size2 x) (map (bcast (size3 x)) rs)) cs = cs"
      using that by (auto simp: rect3_def c intro!: map_idI)
    then show ?thesis using that by (simp add: bcast_id rect3_def)
  qed
  have "map (\<lambda>cs. bcast (size1 x) (map (\<lambda>rs. bcast (size2 x) (map (bcast (size3 x)) rs)) cs))
          (elems x) = elems x"
    using assms by (auto simp: wf_tensor_def b intro!: map_idI)
  then show ?thesis using assms by (simp add: expand_def bcast_id wf_tensor_def)
qed

lemma broadcast2_same:
  assumes "wf_tensor x" "wf_tensor y"
    and "size0 y = size0 x" "size1 y = size1 x" "size2 y = size2 x" "size3 y = size3 x"
  shows "broadcast2 f x y =
    Inr \<lparr>size0 = size0 x, size1 = size1 x, size2 = size2 x, size3 = size3 x,
         elems = map2 (map2 (map2 (map2 f))) (elems x) (elems y)\<rparr>"
  using expand_id[OF assms(1)] expand_id[OF assms(2)] assms(3-)
  by (simp add: broadcast2_def compat_def bsize_def Let_def)

lemma rect2_map2:
  "rect2 h w a \<Longrightarrow> rect2 h w b \<Longrightarrow> rect2 h w (map2 (map2 f) a b)"
  unfolding rect2_def
proof (intro conjI ballI)
  assume a: "length a = h \<and> (\<forall>r\<in>set a. length r = w)"
    and b: "length b = h \<and> (\<forall>r\<in>set b. length r = w)"
  show "length (map2 (map2 f) a b) = h" using a b by simp
  fix r assume "r \<in> set (map2 (map2 f) a b)"
  then obtain u v where "u \<in> set a" "v \<in> set b" "r = map2 f u v"
    by (rule in_set_map2E)
  with a b show "length r = w" by simp
qed

lemma rect3_map2f:
  "rect3 c h w a \<Longrightarrow> rect3 c h w b \<Longrightarrow> rect3 c h w (map2 (map2 (map2 f)) a b)"
  by (auto simp: rect3_def intro!: rect2_map2 dest: set_zip_leftD set_zip_rightD)

lemma broadcast2_same_shaped:
  assumes "shaped x b c h w" "shaped y b c h w"
  shows "\<exists>z. broadcast2 f x y = Inr z \<and> shaped z b c h w \<and>
             elems z = map2 (map2 (map2 (map2 f))) (elems x) (elems y)"
proof -
  from assms have wf: "wf_tensor x" "wf_tensor y"
    and sz: "size0 y = size0 x" "size1 y = size1 x" "size2 y = size2 x" "size3 y = size3 x"
    by (simp_all add: shaped_def)
  have "wf_tensor \<lparr>size0 = size0 x, size1 = size1 x, size2 = size2 x, size3 = size3 x,
         elems = map2 (map2 (map2 (map2 f))) (elems x) (elems y)\<rparr>"
    using wf sz
    by (auto simp: wf_tensor_def intro!: rect3_map2f dest: set_zip_leftD set_zip_rightD)
  then show ?thesis
    using broadcast2_same[OF wf sz, of f] assms(1) by (simp add: shaped_def)
qed

lemma map2_l2:
  "map2 (map2 f) (map (map g) xs) (map (map h) xs) = map (map (\<lambda>x. f (g x) (h x))) xs"
  by (induction xs) (simp_all add: map2_map_map)

lemma map2_l3:
  "map2 (map2 (map2 f)) (map (map (map g)) xs) (map (map (map h)) xs) =
   map (map (map (\<lambda>x. f (g x) (h x)))) xs"
  by (induction xs) (simp_all add: map2_l2)

lemma map2_l4:
  "map2 (map2 (map2 (map2 f))) (map (map (map (map g))) xs) (map (map (map (map h))) xs) =
   map (map (map (map (\<lambda>x. f (g x) (h x))))) xs"
  by (induction xs) (simp_all add: map2_l3)

lemma map2_l4_left:
  "map2 (map2 (map2 (map2 f))) (map (map (map (map g))) xs) xs =
   map (map (map (map (\<lambda>x. f (g x) x)))) xs"
  using map2_l4[where h = "\<lambda>x. x" and f = f and g = g and xs = xs] by simp

lemma tmap_tmap: "tmap f (tmap g x) = tmap (\<lambda>v. f (g v)) x"
  by (simp add: tmap_def comp_def)

lemma bounded_mask_elementwise:
  assumes "wf_tensor m"
  shows "bounded_mask m eps =
     Inr (tmap (\<lambda>z. complex_of_real (tanh (cmod z)) * z / complex_of_real (cmod z + eps)) m)"
proof -
  have wf1: "wf_tensor (tmap (\<lambda>z. tanh (cmod z)) m)" "wf_tensor (tmap (\<lambda>z. cmod z + eps) m)"
    using assms by (simp_all add: wf_tmap)
  have n: "broadcast2 (\<lambda>a b. complex_of_real a * b) (tmap (\<lambda>z. tanh (cmod z)) m) m =
     Inr (tmap (\<lambda>z. complex_of_real (tanh (cmod z)) * z) m)"
    unfolding broadcast2_same[OF wf1(1) assms tmap_sizes[symmetric]]
    by (simp add: tmap_def map2_l4_left)
  have wf2: "wf_tensor (tmap (\<lambda>z. complex_of_real (tanh (cmod z)) * z) m)"
    using assms by (simp add: wf_tmap)
  have d: "broadcast2 (\<lambda>a b. a / complex_of_real b)
       (tmap (\<lambda>z. complex_of_real (tanh (cmod z)) * z) m) (tmap (\<lambda>z. cmod z + eps) m) =
     Inr (tmap (\<lambda>z. complex_of_real (tanh (cmod z)) * z / complex_of_real (cmod z + eps)) m)"
    unfolding broadcast2_same[OF wf2 wf1(2) trans[OF tmap_sizes(1) tmap_sizes(1)[symmetric]]
       trans[OF tmap_sizes(2) tmap_sizes(2)[symmetric]]
       trans[OF tmap_sizes(3) tmap_sizes(3)[symmetric]]
       trans[OF tmap_sizes(4) tmap_sizes(4)[symmetric]]]
    by (simp add: tmap_def map2_l4)
  show ?thesis unfolding bounded_mask_def Let_def tmap_tmap n sbind_Inr by (rule d)
qed

section \<open>The concrete network, padding and the mask activation\<close>

lemma wf_full: "wf_tensor (full v b c h w)"
  by (simp add: wf_tensor_def full_def rect3_def rect2_def)

lemma shaped_full: "shaped (full v b c h w) b c h w"
  by (simp add: shaped_def wf_full) (simp add: full_def)

lemma layers_ok_zero_layers: "layers_ok zero_layers"
  unfolding layers_ok_def Conv2DBNActiv_ok_def Encoder_ok_def Decoder_ok_def
    ASPPModule_ok_def LSTMModule_ok_def Conv2d_ok_def
  by (simp add: zero_layers_def shaped_full)

lemma pad_replicate_shaped:
  assumes x: "shaped x b c h w" and d: "1 \<le> c" "1 \<le> h" "1 \<le> w"
  shows "\<exists>y. pad_replicate (int p) x = Inr y \<and> shaped y b c (h + p) w \<and>
             elems y = map (map (\<lambda>rows. rows @ replicate p (last rows))) (elems x)"
proof -
  have r: "rect2 (h + p) w (rows @ replicate p (last rows))" if "rect2 h w rows" for rows
  proof -
    from that d(2) have "rows \<noteq> []" by (auto simp: rect2_def)
    then have "last rows \<in> set rows" by simp
    with that have "length (last rows) = w" by (simp add: rect2_def)
    with that show ?thesis by (auto simp: rect2_def)
  qed
  have r': "rect2 (size2 x + p) (size3 x) (rows @ replicate p (last rows))"
    if "rect2 (size2 x) (size3 x) rows" for rows
    using r[of rows] that x by (simp add: shaped_def)
  have "wf_tensor (x\<lparr>size2 := h + p,
      elems := map (map (\<lambda>rows. rows @ replicate p (last rows))) (elems x)\<rparr>)"
    using x by (auto simp: shaped_def wf_tensor_def rect3_def r')
  then show ?thesis
    using x d by (simp add: pad_replicate_def shaped_def nat_add_distrib)
qed


lemma shaped_tmap: "shaped x b c h w \<Longrightarrow> shaped (tmap f x) b c h w"
  by (simp add: shaped_def wf_tmap)

lemma to_channels_shaped:
  assumes "valid_input cplx x b f t" "is_complex net = cplx"
  shows "\<exists>xr. to_channels net x = Inr xr \<and> shaped xr b (if cplx then 4 else 2) f t"
proof (cases x)
  case (RealT z)
  with assms show ?thesis by (simp add: valid_input_def to_channels_def)
next
  case (ComplexT z)
  with assms have z: "shaped z b 2 f t" and c: "cplx" by (simp_all add: valid_input_def)
  from cat_dim1_pair[OF shaped_tmap[OF z, of Re] shaped_tmap[OF z, of Im]]
  show ?thesis using ComplexT c assms(2) by (simp add: to_channels_def)
qed

lemma spec_complex_of_eq:
  assumes "shaped raw b 4 h w"
  shows "broadcast2 Complex (slice_dim1_to 2 raw) (slice_dim1_from 2 raw) =
           Inr (spec_complex_of raw)"
    and "shaped (spec_complex_of raw) b 2 h w"
proof -
  from assms have wf: "wf_tensor raw" and sz: "size0 raw = b" "size1 raw = 4" "size2 raw = h"
    "size3 raw = w" by (simp_all add: shaped_def)
  have a: "shaped (slice_dim1_to 2 raw) b 2 h w" "shaped (slice_dim1_from 2 raw) b 2 h w"
    using wf sz by (simp_all add: shaped_def wf_slice_dim1_to wf_slice_dim1_from)
  from broadcast2_same_shaped[OF a, of Complex] obtain z where
    z: "broadcast2 Complex (slice_dim1_to 2 raw) (slice_dim1_from 2 raw) = Inr z"
      "shaped z b 2 h w"
      "elems z = map2 (map2 (map2 (map2 Complex))) (elems (slice_dim1_to 2 raw))
         (elems (slice_dim1_from 2 raw))" by blast
  have "z = spec_complex_of raw"
    using z(2,3) sz
    by (simp add: spec_complex_of_def shaped_def slice_dim1_to_def slice_dim1_from_def
        map2_map_map)
  with z show "broadcast2 Complex (slice_dim1_to 2 raw) (slice_dim1_from 2 raw) =
           Inr (spec_complex_of raw)" "shaped (spec_complex_of raw) b 2 h w"
    by simp_all
qed

lemma spec_bounded_eq:
  "(\<lambda>z. complex_of_real (tanh (cmod z)) * z / complex_of_real (cmod z + default_eps)) =
   spec_bounded"
  by (rule ext) (simp add: spec_bounded_def default_eps_def mult.commute)

lemma masks_spec:
  assumes L: "layers_ok L"
    and f: "shaped f b nout h w"
    and d: "1 \<le> nout" "1 \<le> b" "1 \<le> h" "1 \<le> w"
  shows "\<exists>ry rv.
     out_y (CascadedNet_init L wt nfft hop nout nol cplx) f = Inr ry \<and>
     out_v (CascadedNet_init L wt nfft hop nout nol cplx) f = Inr rv \<and>
     shaped ry b (if cplx then 4 else 2) h w \<and> shaped rv b (if cplx then 4 else 2) h w \<and>
     masks (CascadedNet_init L wt nfft hop nout nol cplx) f =
       Inr (spec_mask cplx ry, spec_mask cplx rv)"
proof -
  let ?net = "CascadedNet_init L wt nfft hop nout nol cplx"
  let ?nin = "if cplx then 4 else 2 :: nat"
  have n: "1 \<le> ?nin" by simp
  from Conv2d_shaped[OF L f d(1) n d(2-)] obtain ry where
    ry: "out_y ?net f = Inr ry" "shaped ry b ?nin h w"
    unfolding CascadedNet_init_nets by blast
  from Conv2d_shaped[OF L f d(1) n d(2-)] obtain rv where
    rv: "out_v ?net f = Inr rv" "shaped rv b ?nin h w"
    unfolding CascadedNet_init_nets by blast
  have "masks ?net f = Inr (spec_mask cplx ry, spec_mask cplx rv)"
  proof (cases cplx)
    case False
    then show ?thesis using ry(1) rv(1)
      by (simp add: masks_def spec_mask_def CascadedNet_init_fields)
  next
    case True
    with ry(2) rv(2) have s: "shaped ry b 4 h w" "shaped rv b 4 h w" by simp_all
    note cy = spec_complex_of_eq[OF s(1)] and cv = spec_complex_of_eq[OF s(2)]
    have bmy: "bounded_mask (spec_complex_of ry) default_eps =
        Inr (tmap spec_bounded (spec_complex_of ry))"
      using bounded_mask_elementwise[OF shaped_wf[OF cy(2)], of default_eps]
      by (simp only: spec_bounded_eq)
    have bmv: "bounded_mask (spec_complex_of rv) default_eps =
        Inr (tmap spec_bounded (spec_complex_of rv))"
      using bounded_mask_elementwise[OF shaped_wf[OF cv(2)], of default_eps]
      by (simp only: spec_bounded_eq)
    show ?thesis using True ry(1) rv(1) cy(1) cv(1) bmy bmv
      by (simp add: masks_def spec_mask_def CascadedNet_init_fields)
  qed
  with ry rv show ?thesis by blast
qed

section \<open>A run of the forward pass\<close>

lemma any_size2_conv: "any_size2 m = fst (snd (snd (any_size m)))"
  by (cases m) simp_all

lemma any_size3_conv: "any_size3 m = snd (snd (snd (any_size m)))"
  by (cases m) simp_all

lemma spec_mask_props:
  assumes "shaped raw b (if cplx then 4 else 2) h w"
  shows "any_wf (spec_mask cplx raw)" "any_size (spec_mask cplx raw) = (b, 2, h, w)"
    "is_complexT (spec_mask cplx raw) = cplx"
proof -
  show "is_complexT (spec_mask cplx raw) = cplx" by (simp add: spec_mask_def)
  have "any_wf (spec_mask cplx raw) \<and> any_size (spec_mask cplx raw) = (b, 2, h, w)"
  proof (cases cplx)
    case True
    with assms have "shaped raw b 4 h w" by simp
    from spec_complex_of_eq(2)[OF this] True show ?thesis
      by (simp add: spec_mask_def shaped_def wf_tmap)
  next
    case False
    with assms show ?thesis by (simp add: spec_mask_def shaped_def wf_tmap)
  qed
  then show "any_wf (spec_mask cplx raw)" "any_size (spec_mask cplx raw) = (b, 2, h, w)"
    by simp_all
qed

lemma any_pad_props:
  assumes "any_wf m" "any_size m = (b, c, h, w)" "1 \<le> c" "1 \<le> h" "1 \<le> w"
  shows "\<exists>m'. any_pad_replicate (int p) m = Inr m' \<and> any_wf m' \<and>
     any_size m' = (b, c, h + p, w) \<and> is_complexT m' = is_complexT m"
proof (cases m)
  case (RealT z)
  with assms have "shaped z b c h w" by (simp add: shaped_def)
  from pad_replicate_shaped[OF this assms(3-), of p] RealT show ?thesis
    by (auto simp: shaped_def)
next
  case (ComplexT z)
  with assms have "shaped z b c h w" by (simp add: shaped_def)
  from pad_replicate_shaped[OF this assms(3-), of p] ComplexT show ?thesis
    by (auto simp: shaped_def)
qed

lemma forward_run:
  assumes L: "layers_ok L"
    and cfg: "valid_config nfft nout nol"
    and vi: "valid_input cplx x b f t"
    and fb: "nfft div 2 \<le> f"
  obtains xr st ry rv my mv where
    "to_channels (CascadedNet_init L wt nfft hop nout nol cplx) x = Inr xr"
    "shaped xr b (if cplx then 4 else 2) f t"
    "cascade (CascadedNet_init L wt nfft hop nout nol cplx) xr = Inr st"
    "shaped (f3 st) b nout (nfft div 2) t"
    "out_y (CascadedNet_init L wt nfft hop nout nol cplx) (f3 st) = Inr ry"
    "out_v (CascadedNet_init L wt nfft hop nout nol cplx) (f3 st) = Inr rv"
    "shaped ry b (if cplx then 4 else 2) (nfft div 2) t"
    "shaped rv b (if cplx then 4 else 2) (nfft div 2) t"
    "masks (CascadedNet_init L wt nfft hop nout nol cplx) (f3 st) =
       Inr (spec_mask cplx ry, spec_mask cplx rv)"
    "any_pad_replicate 1 (spec_mask cplx ry) = Inr my"
    "any_pad_replicate 1 (spec_mask cplx rv) = Inr mv"
    "forward (CascadedNet_init L wt nfft hop nout nol cplx) x = Inr (my, mv)"
    "any_wf my" "any_size my = (b, 2, nfft div 2 + 1, t)" "is_complexT my = cplx"
    "any_wf mv" "any_size mv = (b, 2, nfft div 2 + 1, t)" "is_complexT mv = cplx"
proof -
  let ?net = "CascadedNet_init L wt nfft hop nout nol cplx"
  let ?nin = "if cplx then 4 else 2 :: nat"
  note a = valid_config_arith[OF cfg]
  from vi have d: "1 \<le> b" "1 \<le> t" by (simp_all add: valid_input_def)
  from to_channels_shaped[OF vi CascadedNet_init_fields(3)] obtain xr where
    xr: "to_channels ?net x = Inr xr" "shaped xr b ?nin f t" by blast
  from cascade_shaped[OF L cfg xr(2) refl d fb, of wt hop] obtain st where
    st: "cascade ?net xr = Inr st" "shaped (f3 st) b nout (nfft div 2) t" by metis
  from masks_spec[OF L st(2) a(10) d(1) a(7) d(2), of wt nfft hop nol cplx]
  obtain ry rv where
    m: "out_y ?net (f3 st) = Inr ry" "out_v ?net (f3 st) = Inr rv"
      "shaped ry b ?nin (nfft div 2) t" "shaped rv b ?nin (nfft div 2) t"
      "masks ?net (f3 st) = Inr (spec_mask cplx ry, spec_mask cplx rv)" by blast
  note py = spec_mask_props[OF m(3)] and pv = spec_mask_props[OF m(4)]
  have c2: "1 \<le> (2::nat)" by simp
  from any_pad_props[OF py(1,2) c2 a(7) d(2), of 1] obtain my where
    my: "any_pad_replicate 1 (spec_mask cplx ry) = Inr my" "any_wf my"
      "any_size my = (b, 2, nfft div 2 + 1, t)" "is_complexT my = cplx"
    using py(3) by auto
  from any_pad_props[OF pv(1,2) c2 a(7) d(2), of 1] obtain mv where
    mv: "any_pad_replicate 1 (spec_mask cplx rv) = Inr mv" "any_wf mv"
      "any_size mv = (b, 2, nfft div 2 + 1, t)" "is_complexT mv = cplx"
    using pv(3) by auto
  have pm: "pad_masks ?net (spec_mask cplx ry, spec_mask cplx rv) = Inr (my, mv)"
    using my(1) mv(1) py(2) pv(2)
    by (simp add: pad_masks_def CascadedNet_init_fields any_size2_conv)
  have "forward ?net x = Inr (my, mv)"
    using xr(1) st(1) m(5) pm by (simp add: forward_def)
  then show ?thesis
    using xr st m my mv by (intro that[of xr st ry rv my mv])
qed

section \<open>Trimming, and the product with the input\<close>

lemma any_slice_props:
  "any_wf m \<Longrightarrow> any_wf (any_slice_dim3_mid off m)"
  "any_size m = (b, c, h, t) \<Longrightarrow>
     any_size (any_slice_dim3_mid off m) = (b, c, h, if off = 0 then 0 else t - 2 * off)"
  "is_complexT (any_slice_dim3_mid off m) = is_complexT m"
  by (cases m; simp add: wf_slice_dim3_mid)+

lemma trim_ok:
  assumes "any_size m1 = (b, c, h, t)" "any_size m2 = (b, c, h, t)"
    and "0 < offset net" "2 * offset net < t"
  shows "trim net (m1, m2) =
     Inr (any_slice_dim3_mid (offset net) m1, any_slice_dim3_mid (offset net) m2)"
  using assms any_slice_props(2)[OF assms(1), of "offset net"]
    any_slice_props(2)[OF assms(2), of "offset net"]
  by (simp add: trim_def Let_def any_size3_conv)

lemma trim_fails:
  assumes "any_size m1 = (b, c, h, t)" "0 < offset net" "t \<le> 2 * offset net"
  shows "trim net (m1, m2) = Inl AssertionError"
  using assms any_slice_props(2)[OF assms(1), of "offset net"]
  by (simp add: trim_def Let_def any_size3_conv)

lemma predict_mask_ok:
  assumes L: "layers_ok L"
    and cfg: "valid_config nfft nout nol"
    and vi: "valid_input cplx x b f t"
    and fb: "nfft div 2 \<le> f"
    and t: "128 < t"
  obtains my mv where
    "forward (CascadedNet_init L wt nfft hop nout nol cplx) x = Inr (my, mv)"
    "any_size my = (b, 2, nfft div 2 + 1, t)" "any_size mv = (b, 2, nfft div 2 + 1, t)"
    "any_wf my" "any_wf mv" "is_complexT my = cplx" "is_complexT mv = cplx"
    "predict_mask (CascadedNet_init L wt nfft hop nout nol cplx) x =
       Inr (any_slice_dim3_mid 64 my, any_slice_dim3_mid 64 mv)"
    "any_size (any_slice_dim3_mid 64 my) = (b, 2, nfft div 2 + 1, t - 128)"
    "any_size (any_slice_dim3_mid 64 mv) = (b, 2, nfft div 2 + 1, t - 128)"
proof -
  let ?net = "CascadedNet_init L wt nfft hop nout nol cplx"
  from forward_run[OF L cfg vi fb, of wt hop] obtain my mv where
    m: "forward ?net x = Inr (my, mv)"
      "any_wf my" "any_size my = (b, 2, nfft div 2 + 1, t)" "is_complexT my = cplx"
      "any_wf mv" "any_size mv = (b, 2, nfft div 2 + 1, t)" "is_complexT mv = cplx"
    by metis
  have o: "offset ?net = 64" by (simp add: CascadedNet_init_fields)
  have "trim ?net (my, mv) = Inr (any_slice_dim3_mid 64 my, any_slice_dim3_mid 64 mv)"
    using trim_ok[OF m(3) m(6), of ?net] t by (simp add: o)
  then have "predict_mask ?net x = Inr (any_slice_dim3_mid 64 my, any_slice_dim3_mid 64 mv)"
    using m(1) by (simp add: predict_mask_def)
  then show ?thesis
    using m any_slice_props(2)[OF m(3), of 64] any_slice_props(2)[OF m(6), of 64]
    by (intro that[of my mv]) simp_all
qed

lemma predict_mask_degenerate:
  assumes L: "layers_ok L"
    and cfg: "valid_config nfft nout nol"
    and vi: "valid_input cplx x b f t"
    and fb: "nfft div 2 \<le> f"
    and t: "t \<le> 128"
  shows "predict_mask (CascadedNet_init L wt nfft hop nout nol cplx) x = Inl AssertionError"
proof -
  let ?net = "CascadedNet_init L wt nfft hop nout nol cplx"
  from forward_run[OF L cfg vi fb, of wt hop] obtain my mv where
    m: "forward ?net x = Inr (my, mv)" "any_size my = (b, 2, nfft div 2 + 1, t)"
    by metis
  have o: "offset ?net = 64" by (simp add: CascadedNet_init_fields)
  have "trim ?net (my, mv) = Inl AssertionError"
    using trim_fails[OF m(2), of ?net mv] t by (simp add: o)
  then show ?thesis using m(1) by (simp add: predict_mask_def)
qed

lemma valid_input_props:
  assumes "valid_input cplx x b f t"
  shows "any_wf x" "any_size x = (b, 2, f, t)" "is_complexT x = cplx" "1 \<le> b" "1 \<le> t"
  using assms by (cases x; simp add: valid_input_def shaped_def)+

lemma map_map2:
  assumes "\<And>u v. g (F u v) = F' (g1 u) (g2 v)"
  shows "map g (map2 F xs ys) = map2 F' (map g1 xs) (map g2 ys)"
proof (induction xs arbitrary: ys)
  case Nil
  then show ?case by simp
next
  case (Cons a xs)
  then show ?case by (cases ys) (simp_all add: assms)
qed

lemma slice_row_map2:
  "drop off (take k (map2 f u v)) = map2 f (drop off (take k u)) (drop off (take k v))"
  by (simp add: take_map drop_map take_zip drop_zip)

lemma slice_elems_map2:
  "map (map (map sl)) (map2 (map2 (map2 (map2 f))) X M) =
   map2 (map2 (map2 (map2 f))) (map (map (map sl1)) X) (map (map (map sl2)) M)"
  if "\<And>u v. sl (map2 f u v) = map2 f (sl1 u) (sl2 v)"
  by (intro map_map2 that)

lemma broadcast2_slice:
  assumes wf: "wf_tensor x" "wf_tensor m"
    and sz: "size0 m = size0 x" "size1 m = size1 x" "size2 m = size2 x" "size3 m = size3 x"
    and p: "broadcast2 f x m = Inr p"
  shows "broadcast2 f (slice_dim3_mid off x) (slice_dim3_mid off m) = Inr (slice_dim3_mid off p)"
proof -
  from p broadcast2_same[OF wf sz, of f] have
    pe: "p = \<lparr>size0 = size0 x, size1 = size1 x, size2 = size2 x, size3 = size3 x,
         elems = map2 (map2 (map2 (map2 f))) (elems x) (elems m)\<rparr>" by simp
  have wfs: "wf_tensor (slice_dim3_mid off x)" "wf_tensor (slice_dim3_mid off m)"
    using wf by (simp_all add: wf_slice_dim3_mid)
  have szs: "size0 (slice_dim3_mid off m) = size0 (slice_dim3_mid off x)"
    "size1 (slice_dim3_mid off m) = size1 (slice_dim3_mid off x)"
    "size2 (slice_dim3_mid off m) = size2 (slice_dim3_mid off x)"
    "size3 (slice_dim3_mid off m) = size3 (slice_dim3_mid off x)"
    using sz by simp_all
  have e0: "map (map (map (\<lambda>r. []))) (map2 (map2 (map2 (map2 f))) (elems x) (elems m)) =
      map2 (map2 (map2 (map2 f))) (map (map (map (\<lambda>r. []))) (elems x))
        (map (map (map (\<lambda>r. []))) (elems m))"
    by (rule slice_elems_map2) simp
  have e1: "map (map (map (\<lambda>r. drop off (take k r))))
        (map2 (map2 (map2 (map2 f))) (elems x) (elems m)) =
      map2 (map2 (map2 (map2 f))) (map (map (map (\<lambda>r. drop off (take k r)))) (elems x))
        (map (map (map (\<lambda>r. drop off (take k r)))) (elems m))" for k
    by (rule slice_elems_map2) (rule slice_row_map2)
  show ?thesis
    unfolding broadcast2_same[OF wfs szs]
    by (cases "off = 0") (simp_all add: pe slice_dim3_mid_def sz e0 e1 del: map_map)
qed

lemma torch_mul_same:
  assumes "any_wf x" "any_wf m" "any_size x = (b, c, h, t)" "any_size m = (b, c, h, t)"
    and "is_complexT x = is_complexT m"
  obtains p where "torch_mul x m = Inr p" "any_wf p" "any_size p = (b, c, h, t)"
    "is_complexT p = is_complexT x"
    "torch_mul (any_slice_dim3_mid off x) (any_slice_dim3_mid off m) =
       Inr (any_slice_dim3_mid off p)"
proof (cases x)
  case (RealT u)
  with assms obtain v where v: "m = RealT v" by (cases m) simp_all
  from assms RealT v have s: "shaped u b c h t" "shaped v b c h t" by (simp_all add: shaped_def)
  from broadcast2_same_shaped[OF s, of "\<lambda>a b. a * b"] obtain z where
    z: "broadcast2 (\<lambda>a b. a * b) u v = Inr z" "shaped z b c h t" by blast
  have "broadcast2 (\<lambda>a b. a * b) (slice_dim3_mid off u) (slice_dim3_mid off v) =
      Inr (slice_dim3_mid off z)"
    using s by (intro broadcast2_slice z(1)) (simp_all add: shaped_def)
  then show ?thesis
    using RealT v z by (intro that[of "RealT z"]) (simp_all add: shaped_def)
next
  case (ComplexT u)
  with assms obtain v where v: "m = ComplexT v" by (cases m) simp_all
  from assms ComplexT v have s: "shaped u b c h t" "shaped v b c h t"
    by (simp_all add: shaped_def)
  from broadcast2_same_shaped[OF s, of "\<lambda>a b. a * b"] obtain z where
    z: "broadcast2 (\<lambda>a b. a * b) u v = Inr z" "shaped z b c h t" by blast
  have "broadcast2 (\<lambda>a b. a * b) (slice_dim3_mid off u) (slice_dim3_mid off v) =
      Inr (slice_dim3_mid off z)"
    using s by (intro broadcast2_slice z(1)) (simp_all add: shaped_def)
  then show ?thesis
    using ComplexT v z by (intro that[of "ComplexT z"]) (simp_all add: shaped_def)
qed

lemma torch_mul_mismatch:
  assumes "any_size x = (b, c, f, t)" "any_size m = (b', c', h, t')"
    and "f \<noteq> h" "f \<noteq> 1" "h \<noteq> 1"
  shows "torch_mul x m = Inl ShapeMismatch"
  using assms by (cases x; cases m) (simp_all add: broadcast2_def compat_def)

lemma predict_ok:
  assumes L: "layers_ok L"
    and cfg: "valid_config nfft nout nol"
    and vi: "valid_input cplx x b (nfft div 2 + 1) t"
    and t: "128 < t"
  obtains my mv py pv where
    "forward (CascadedNet_init L wt nfft hop nout nol cplx) x = Inr (my, mv)"
    "predict_mask (CascadedNet_init L wt nfft hop nout nol cplx) x =
       Inr (any_slice_dim3_mid 64 my, any_slice_dim3_mid 64 mv)"
    "predict (CascadedNet_init L wt nfft hop nout nol cplx) x = Inr (py, pv)"
    "torch_mul (any_slice_dim3_mid 64 x) (any_slice_dim3_mid 64 my) = Inr py"
    "torch_mul (any_slice_dim3_mid 64 x) (any_slice_dim3_mid 64 mv) = Inr pv"
    "any_size py = (b, 2, nfft div 2 + 1, t - 128)"
    "any_size pv = (b, 2, nfft div 2 + 1, t - 128)"
    "any_size (any_slice_dim3_mid 64 my) = (b, 2, nfft div 2 + 1, t - 128)"
    "any_size (any_slice_dim3_mid 64 mv) = (b, 2, nfft div 2 + 1, t - 128)"
    "any_size (any_slice_dim3_mid 64 x) = (b, 2, nfft div 2 + 1, t - 128)"
proof -
  let ?net = "CascadedNet_init L wt nfft hop nout nol cplx"
  have fb: "nfft div 2 \<le> nfft div 2 + 1" by simp
  note x = valid_input_props[OF vi]
  from predict_mask_ok[OF L cfg vi fb t, of wt hop] obtain my mv where
    m: "forward ?net x = Inr (my, mv)"
      "any_size my = (b, 2, nfft div 2 + 1, t)" "any_size mv = (b, 2, nfft div 2 + 1, t)"
      "any_wf my" "any_wf mv" "is_complexT my = cplx" "is_complexT mv = cplx"
      "predict_mask ?net x = Inr (any_slice_dim3_mid 64 my, any_slice_dim3_mid 64 mv)"
      "any_size (any_slice_dim3_mid 64 my) = (b, 2, nfft div 2 + 1, t - 128)"
      "any_size (any_slice_dim3_mid 64 mv) = (b, 2, nfft div 2 + 1, t - 128)"
    by metis
  have dy: "is_complexT x = is_complexT my" and dv: "is_complexT x = is_complexT mv"
    using x(3) m(6,7) by simp_all
  from torch_mul_same[OF x(1) m(4) x(2) m(2) dy, of 64] obtain qy where
    qy: "torch_mul x my = Inr qy" "any_size qy = (b, 2, nfft div 2 + 1, t)"
      "torch_mul (any_slice_dim3_mid 64 x) (any_slice_dim3_mid 64 my) =
        Inr (any_slice_dim3_mid 64 qy)" by metis
  from torch_mul_same[OF x(1) m(5) x(2) m(3) dv, of 64] obtain qv where
    qv: "torch_mul x mv = Inr qv" "any_size qv = (b, 2, nfft div 2 + 1, t)"
      "torch_mul (any_slice_dim3_mid 64 x) (any_slice_dim3_mid 64 mv) =
        Inr (any_slice_dim3_mid 64 qv)" by metis
  have o: "offset ?net = 64" by (simp add: CascadedNet_init_fields)
  have "trim ?net (qy, qv) = Inr (any_slice_dim3_mid 64 qy, any_slice_dim3_mid 64 qv)"
    using trim_ok[OF qy(2) qv(2), of ?net] t by (simp add: o)
  then have p: "predict ?net x = Inr (any_slice_dim3_mid 64 qy, any_slice_dim3_mid 64 qv)"
    using m(1) qy(1) qv(1) by (simp add: predict_def)
  show ?thesis
    using m(1,8,9,10) p qy(3) qv(3) any_slice_props(2)[OF qy(2), of 64]
      any_slice_props(2)[OF qv(2), of 64] any_slice_props(2)[OF x(2), of 64]
    by (intro that[of my mv "any_slice_dim3_mid 64 qy" "any_slice_dim3_mid 64 qv"]) simp_all
qed

lemma predict_degenerate:
  assumes L: "layers_ok L"
    and cfg: "valid_config nfft nout nol"
    and vi: "valid_input cplx x b (nfft div 2 + 1) t"
    and t: "t \<le> 128"
  shows "predict (CascadedNet_init L wt nfft hop nout nol cplx) x = Inl AssertionError"
proof -
  let ?net = "CascadedNet_init L wt nfft hop nout nol cplx"
  have fb: "nfft div 2 \<le> nfft div 2 + 1" by simp
  note x = valid_input_props[OF vi]
  from forward_run[OF L cfg vi fb, of wt hop] obtain my mv where
    m: "forward ?net x = Inr (my, mv)"
      "any_wf my" "any_size my = (b, 2, nfft div 2 + 1, t)" "is_complexT my = cplx"
      "any_wf mv" "any_size mv = (b, 2, nfft div 2 + 1, t)" "is_complexT mv = cplx"
    by metis
  have dy: "is_complexT x = is_complexT my" and dv: "is_complexT x = is_complexT mv"
    using x(3) m(4,7) by simp_all
  from torch_mul_same[OF x(1) m(2) x(2) m(3) dy, of 64] obtain qy where
    qy: "torch_mul x my = Inr qy" "any_size qy = (b, 2, nfft div 2 + 1, t)" by metis
  from torch_mul_same[OF x(1) m(5) x(2) m(6) dv, of 64] obtain qv where
    qv: "torch_mul x mv = Inr qv" by metis
  have o: "offset ?net = 64" by (simp add: CascadedNet_init_fields)
  have "trim ?net (qy, qv) = Inl AssertionError"
    using trim_fails[OF qy(2), of ?net qv] t by (simp add: o)
  then show ?thesis using m(1) qy(1) qv(1) by (simp add: predict_def)
qed

lemma predict_shape_error:
  assumes L: "layers_ok L"
    and cfg: "valid_config nfft nout nol"
    and vi: "valid_input cplx x b f t"
    and fb: "nfft div 2 \<le> f"
    and ne: "f \<noteq> nfft div 2 + 1"
  shows "predict (CascadedNet_init L wt nfft hop nout nol cplx) x = Inl ShapeMismatch"
proof -
  let ?net = "CascadedNet_init L wt nfft hop nout nol cplx"
  note x = valid_input_props[OF vi]
  from forward_run[OF L cfg vi fb, of wt hop] obtain my mv where
    m: "forward ?net x = Inr (my, mv)" "any_size my = (b, 2, nfft div 2 + 1, t)"
    by metis
  from cfg have "4 \<le> nfft div 2" by (auto simp: valid_config_def dvd_def)
  with fb have "f \<noteq> 1" "nfft div 2 + 1 \<noteq> 1" by simp_all
  from torch_mul_mismatch[OF x(2) m(2) ne this]
  show ?thesis using m(1) by (simp add: predict_def)
qed

section \<open>Rows of a padded mask, and the parameter that is not read\<close>

lemma pad_replicate_rows:
  assumes x: "shaped x b c h w" and h: "1 \<le> h"
    and y: "pad_replicate (int p) x = Inr y"
    and i: "i < b" "j < c" "k < h + p"
  shows "elems y ! i ! j ! k = elems x ! i ! j ! (min k (h - 1))"
proof -
  from x have wf: "wf_tensor x" and sz: "size0 x = b" "size1 x = c" "size2 x = h" "size3 x = w"
    by (simp_all add: shaped_def)
  from y have e: "elems y = map (map (\<lambda>rows. rows @ replicate p (last rows))) (elems x)"
    by (auto simp: pad_replicate_def split: if_splits)
  have li: "i < length (elems x)" using wf sz i by (simp add: wf_tensor_def)
  then have "elems x ! i \<in> set (elems x)" by simp
  with wf sz have r3: "rect3 c h w (elems x ! i)" by (simp add: wf_tensor_def)
  then have lj: "j < length (elems x ! i)" using i by (simp add: rect3_def)
  then have "elems x ! i ! j \<in> set (elems x ! i)" by simp
  with r3 have r2: "rect2 h w (elems x ! i ! j)" by (simp add: rect3_def)
  then have lh: "length (elems x ! i ! j) = h" by (simp add: rect2_def)
  with h have ne: "elems x ! i ! j \<noteq> []" by auto
  have "elems y ! i ! j ! k =
      (elems x ! i ! j @ replicate p (last (elems x ! i ! j))) ! k"
    using li lj by (simp add: e)
  also have "\<dots> = elems x ! i ! j ! (min k (h - 1))"
  proof (cases "k < h")
    case True
    then have "min k (h - 1) = k" by simp
    with True lh show ?thesis by (simp add: nth_append)
  next
    case False
    then have "min k (h - 1) = h - 1" using h by simp
    with False i(3) lh ne show ?thesis by (simp add: nth_append last_conv_nth)
  qed
  finally show ?thesis .
qed

lemma any_pad_rows:
  assumes "any_wf u" "any_size u = (b, c, h, w)" "1 \<le> h"
    and "any_pad_replicate (int p) u = Inr m"
    and "i < b" "j < c" "k < h + p"
  shows "any_freq_row m i j k = any_freq_row u i j (min k (h - 1))"
proof (cases u)
  case (RealT z)
  with assms(1,2) have s: "shaped z b c h w" by (simp add: shaped_def)
  from assms(4) RealT obtain y where y: "pad_replicate (int p) z = Inr y" "m = RealT y"
    by (cases "pad_replicate (int p) z") auto
  from pad_replicate_rows[OF s assms(3) y(1) assms(5-)] RealT y(2) show ?thesis by simp
next
  case (ComplexT z)
  with assms(1,2) have s: "shaped z b c h w" by (simp add: shaped_def)
  from assms(4) ComplexT obtain y where y: "pad_replicate (int p) z = Inr y" "m = ComplexT y"
    by (cases "pad_replicate (int p) z") auto
  from pad_replicate_rows[OF s assms(3) y(1) assms(5-)] ComplexT y(2) show ?thesis by simp
qed

lemma parts_hop_length:
  "to_channels (net\<lparr>hop_length := h\<rparr>) = to_channels net"
  "cascade (net\<lparr>hop_length := h\<rparr>) = cascade net"
  "masks (net\<lparr>hop_length := h\<rparr>) = masks net"
  "pad_masks (net\<lparr>hop_length := h\<rparr>) = pad_masks net"
  by (rule ext, simp add: to_channels_def cascade_def masks_def pad_masks_def)+

lemma forward_hop_length:
  "forward (net\<lparr>hop_length := h\<rparr>) x = forward net x"
  by (simp add: forward_def parts_hop_length)

lemma trim_hop_length: "trim (net\<lparr>hop_length := h\<rparr>) p = trim net p"
  by (simp add: trim_def)

lemma CascadedNet_init_hop_length:
  "CascadedNet_init L wt nfft hp2 nout nol cplx =
   (CascadedNet_init L wt nfft hp1 nout nol cplx)\<lparr>hop_length := hp2\<rparr>"
  by (simp add: CascadedNet_init_def Let_def)

lemma valid_config_default: "valid_config 2048 32 128"
  by (simp add: valid_config_def)

lemma valid_input_full:
  "1 \<le> b \<Longrightarrow> 1 \<le> t \<Longrightarrow> valid_input False (RealT (full v b 2 f t)) b f t"
  "1 \<le> b \<Longrightarrow> 1 \<le> t \<Longrightarrow> valid_input True (ComplexT (full u b 2 f t)) b f t"
  by (simp_all add: valid_input_def shaped_full)

lemma cat_dim1_pair_elems:
  "cat_dim1 [u, v] = Inr z \<Longrightarrow> elems z = map2 (@) (elems u) (elems v)"
  by (auto simp: cat2_dim1_def sbind_eq_Inr split: if_splits)

lemma cat_dim2_pair_elems:
  "cat_dim2 [u, v] = Inr z \<Longrightarrow> elems z = map2 (map2 (@)) (elems u) (elems v)"
  by (auto simp: cat2_dim2_def sbind_eq_Inr split: if_splits)

lemma cat_dim1_triple_elems:
  "cat_dim1 [u, v, w] = Inr z \<Longrightarrow>
   elems z = map2 (@) (map2 (@) (elems u) (elems v)) (elems w)"
  by (auto simp: cat2_dim1_def sbind_eq_Inr split: if_splits)

lemma shaped_sizes:
  "shaped x b c h w \<Longrightarrow> size0 x = b \<and> size1 x = c \<and> size2 x = h \<and> size3 x = w"
  by (simp add: shaped_def)

lemma bounded_mask_spec:
  "wf_tensor m \<Longrightarrow> bounded_mask m default_eps = Inr (tmap spec_bounded m)"
  using bounded_mask_elementwise[of m default_eps] by (simp only: spec_bounded_eq)

lemma band_split_parts:
  "fst (band_split x) = size2 x div 2"
  "fst (snd (band_split x)) = slice_dim2_to (size2 x div 2) x"
  "snd (snd (band_split x)) = slice_dim2_from (size2 x div 2) x"
  by (simp_all add: band_split_def Let_def)

lemma full_sizes [simp]:
  "size0 (full v b c h w) = b" "size1 (full v b c h w) = c"
  "size2 (full v b c h w) = h" "size3 (full v b c h w) = w"
  by (simp_all add: full_def)

section \<open>The concrete network on a concrete input\<close>

lemma tmap_full: "tmap f (full v b c h w) = full (f v) b c h w"
  by (simp add: tmap_def full_def)

lemma sigmoid_zero: "sigmoid 0 = 1 / 2"
  by (simp add: sigmoid_def)

lemma pad_replicate_full:
  assumes "1 \<le> c" "1 \<le> h" "1 \<le> w"
  shows "pad_replicate 1 (full v b c h w) = Inr (full v b c (h + 1) w)"
  using assms by (simp add: pad_replicate_def full_def replicate_append_same)

lemma slice_dim3_mid_full:
  "0 < off \<Longrightarrow> slice_dim3_mid off (full v b c h w) = full v b c h (w - 2 * off)"
  by (simp add: slice_dim3_mid_def full_def min_def mult_2)

lemma forward_zero_layers:
  assumes cfg: "valid_config nfft nout nol"
    and vi: "valid_input False x b f t"
    and fb: "nfft div 2 \<le> f"
  shows "forward (CascadedNet_init zero_layers wt nfft hop nout nol False) x =
     Inr (RealT (full (1 / 2) b 2 (nfft div 2 + 1) t),
          RealT (full (1 / 2) b 2 (nfft div 2 + 1) t))"
proof -
  let ?net = "CascadedNet_init zero_layers wt nfft hop nout nol False"
  note a = valid_config_arith[OF cfg]
  from vi have d: "1 \<le> b" "1 \<le> t" by (simp_all add: valid_input_def)
  obtain st :: stages and ry rv my mv where
    r: "shaped (f3 st) b nout (nfft div 2) t"
      "out_y ?net (f3 st) = Inr ry" "out_v ?net (f3 st) = Inr rv"
      "any_pad_replicate 1 (spec_mask False ry) = Inr my"
      "any_pad_replicate 1 (spec_mask False rv) = Inr mv"
      "forward ?net x = Inr (my, mv)"
    by (rule forward_run[OF layers_ok_zero_layers cfg vi fb, of wt hop]) blast
  note s = shaped_sizes[OF r(1)]
  have ry: "ry = full 0 b 2 (nfft div 2) t" and rv: "rv = full 0 b 2 (nfft div 2) t"
    using r(2,3) s by (simp_all add: CascadedNet_init_nets zero_layers_def)
  have c2: "1 \<le> (2::nat)" by simp
  have "my = RealT (full (1 / 2) b 2 (nfft div 2 + 1) t)"
    using r(4) pad_replicate_full[OF c2 a(7) d(2), of "1 / 2 :: real" b]
    by (simp add: ry spec_mask_def tmap_full sigmoid_zero)
  moreover have "mv = RealT (full (1 / 2) b 2 (nfft div 2 + 1) t)"
    using r(5) pad_replicate_full[OF c2 a(7) d(2), of "1 / 2 :: real" b]
    by (simp add: rv spec_mask_def tmap_full sigmoid_zero)
  ultimately show ?thesis using r(6) by simp
qed


lemma top_bin_input_sizes [simp]:
  "size0 (top_bin_input v v' b n t) = b" "size1 (top_bin_input v v' b n t) = 2"
  "size2 (top_bin_input v v' b n t) = n + 1" "size3 (top_bin_input v v' b n t) = t"
  by (simp_all add: top_bin_input_def)

lemma wf_top_bin_input: "wf_tensor (top_bin_input v v' b n t)"
  by (auto simp: wf_tensor_def top_bin_input_def rect3_def rect2_def)

lemma shaped_top_bin_input: "shaped (top_bin_input v v' b n t) b 2 (n + 1) t"
  by (simp add: shaped_def wf_top_bin_input)

lemma valid_input_top_bin:
  "1 \<le> b \<Longrightarrow> 1 \<le> t \<Longrightarrow> valid_input False (RealT (top_bin_input v v' b n t)) b (n + 1) t"
  using shaped_top_bin_input[of v v' b n t] by (simp add: valid_input_def)

lemma map2_replicate:
  "map2 f (replicate n x) (replicate n y) = replicate n (f x y)"
  by (simp add: zip_replicate)

lemma map2_snoc_replicate:
  "map2 f (replicate n x @ [x']) (replicate (Suc n) y) = replicate n (f x y) @ [f x' y]"
proof -
  have "replicate (Suc n) y = replicate n y @ [y]" by (simp add: replicate_append_same)
  then show ?thesis by (simp add: zip_replicate)
qed

lemma mul_top_bin_input:
  "broadcast2 f (top_bin_input v v' b n t) (full m b 2 (Suc n) t) =
     Inr (top_bin_input (f v m) (f v' m) b n t)"
proof -
  have "broadcast2 f (top_bin_input v v' b n t) (full m b 2 (Suc n) t) =
      Inr \<lparr>size0 = size0 (top_bin_input v v' b n t), size1 = size1 (top_bin_input v v' b n t),
        size2 = size2 (top_bin_input v v' b n t), size3 = size3 (top_bin_input v v' b n t),
        elems = map2 (map2 (map2 (map2 f))) (elems (top_bin_input v v' b n t))
          (elems (full m b 2 (Suc n) t))\<rparr>"
    by (rule broadcast2_same) (simp_all add: wf_top_bin_input wf_full)
  also have "\<dots> = Inr (top_bin_input (f v m) (f v' m) b n t)"
    by (simp add: top_bin_input_def full_def map2_replicate map2_snoc_replicate
        del: replicate_Suc)
  finally show ?thesis .
qed


lemma slice_dim3_mid_top_bin:
  "0 < off \<Longrightarrow>
   slice_dim3_mid off (top_bin_input v v' b n t) = top_bin_input v v' b n (t - 2 * off)"
  by (simp add: slice_dim3_mid_def top_bin_input_def min_def mult_2)

lemma top_bin_input_full: "top_bin_input v v b n t = full v b 2 (n + 1) t"
  by (simp add: top_bin_input_def full_def replicate_append_same)

lemma top_bin_input_inject:
  assumes "0 < b" "0 < t" "top_bin_input v a b n t = top_bin_input v c b n t"
  shows "a = c"
  using assms by (simp add: top_bin_input_def)

lemma predict_mask_zero_layers:
  assumes cfg: "valid_config nfft nout nol"
    and vi: "valid_input False x b f t"
    and fb: "nfft div 2 \<le> f"
    and t: "128 < t"
  shows "predict_mask (CascadedNet_init zero_layers wt nfft hop nout nol False) x =
     Inr (RealT (full (1 / 2) b 2 (nfft div 2 + 1) (t - 128)),
          RealT (full (1 / 2) b 2 (nfft div 2 + 1) (t - 128)))"
  using t
  by (simp add: predict_mask_def forward_zero_layers[OF cfg vi fb] trim_def Let_def
      CascadedNet_init_fields slice_dim3_mid_full)

lemma predict_top_bin:
  assumes cfg: "valid_config nfft nout nol"
    and b: "1 \<le> b" and t: "128 < t"
  shows "predict (CascadedNet_init zero_layers wt nfft hop nout nol False)
       (RealT (top_bin_input v v' b (nfft div 2) t)) =
     Inr (RealT (top_bin_input (v * (1 / 2)) (v' * (1 / 2)) b (nfft div 2) (t - 128)),
          RealT (top_bin_input (v * (1 / 2)) (v' * (1 / 2)) b (nfft div 2) (t - 128)))"
proof -
  from t have t1: "1 \<le> t" by simp
  have fb: "nfft div 2 \<le> nfft div 2 + 1" by simp
  note f = forward_zero_layers[OF cfg valid_input_top_bin[OF b t1] fb]
  show ?thesis using t
    by (simp add: predict_def f mul_top_bin_input trim_def Let_def CascadedNet_init_fields
        slice_dim3_mid_top_bin)
qed

lemma truncated_then_padded_top_bin:
  assumes "1 \<le> nfft div 2" "1 \<le> t"
  shows "truncated_then_padded Replicate (CascadedNet_init L wt nfft hop nout nol cplx)
       (RealT (top_bin_input v v' b (nfft div 2) t)) =
     Inr (RealT (top_bin_input v v b (nfft div 2) t))"
    and "truncated_then_padded Zeros (CascadedNet_init L wt nfft hop nout nol cplx)
       (RealT (top_bin_input v v' b (nfft div 2) t)) =
     Inr (RealT (top_bin_input v 0 b (nfft div 2) t))"
proof -
  have s: "slice_dim2_to (nfft div 2) (top_bin_input v v' b (nfft div 2) t) =
      full v b 2 (nfft div 2) t"
    by (simp add: slice_dim2_to_def top_bin_input_def full_def)
  have c2: "1 \<le> (2::nat)" by simp
  show "truncated_then_padded Replicate (CascadedNet_init L wt nfft hop nout nol cplx)
       (RealT (top_bin_input v v' b (nfft div 2) t)) =
     Inr (RealT (top_bin_input v v b (nfft div 2) t))"
    using pad_replicate_full[OF c2 assms, of v b]
    by (simp add: truncated_then_padded_def pad_back_def s CascadedNet_init_fields
        top_bin_input_full)
  show "truncated_then_padded Zeros (CascadedNet_init L wt nfft hop nout nol cplx)
       (RealT (top_bin_input v v' b (nfft div 2) t)) =
     Inr (RealT (top_bin_input v 0 b (nfft div 2) t))"
    by (simp add: truncated_then_padded_def pad_back_def s CascadedNet_init_fields
        pad_fill_def) (simp add: full_def top_bin_input_def)
qed

lemma spec_predict_top_bin:
  assumes cfg: "valid_config nfft nout nol"
    and b: "1 \<le> b" and t: "128 < t"
  shows "spec_predict Replicate (CascadedNet_init zero_layers wt nfft hop nout nol False)
       (RealT (top_bin_input v v' b (nfft div 2) t)) =
     Inr (RealT (top_bin_input (v * (1 / 2)) (v * (1 / 2)) b (nfft div 2) (t - 128)),
          RealT (top_bin_input (v * (1 / 2)) (v * (1 / 2)) b (nfft div 2) (t - 128)))"
    and "spec_predict Zeros (CascadedNet_init zero_layers wt nfft hop nout nol False)
       (RealT (top_bin_input v v' b (nfft div 2) t)) =
     Inr (RealT (top_bin_input (v * (1 / 2)) (0 * (1 / 2)) b (nfft div 2) (t - 128)),
          RealT (top_bin_input (v * (1 / 2)) (0 * (1 / 2)) b (nfft div 2) (t - 128)))"
proof -
  from t have t1: "1 \<le> t" by simp
  have fb: "nfft div 2 \<le> nfft div 2 + 1" by simp
  note a = valid_config_arith[OF cfg]
  note pm = predict_mask_zero_layers[OF cfg valid_input_top_bin[OF b t1] fb t]
  note tp = truncated_then_padded_top_bin[OF a(7) t1]
  show "spec_predict Replicate (CascadedNet_init zero_layers wt nfft hop nout nol False)
       (RealT (top_bin_input v v' b (nfft div 2) t)) =
     Inr (RealT (top_bin_input (v * (1 / 2)) (v * (1 / 2)) b (nfft div 2) (t - 128)),
          RealT (top_bin_input (v * (1 / 2)) (v * (1 / 2)) b (nfft div 2) (t - 128)))"
    by (simp add: spec_predict_def pm tp CascadedNet_init_fields slice_dim3_mid_top_bin
        mul_top_bin_input)
  show "spec_predict Zeros (CascadedNet_init zero_layers wt nfft hop nout nol False)
       (RealT (top_bin_input v v' b (nfft div 2) t)) =
     Inr (RealT (top_bin_input (v * (1 / 2)) (0 * (1 / 2)) b (nfft div 2) (t - 128)),
          RealT (top_bin_input (v * (1 / 2)) (0 * (1 / 2)) b (nfft div 2) (t - 128)))"
    by (simp add: spec_predict_def pm tp CascadedNet_init_fields slice_dim3_mid_top_bin
        mul_top_bin_input)
qed

section \<open>The claims\<close>

text \<open>
  C9. The construction parameter \<open>hop_length\<close> is stored and never read: two networks
  built from the same modules, the same learned parameters and the same other
  arguments, with any two values of \<open>hop_length\<close>, give the same result of \<open>forward\<close>,
  of \<open>predict_mask\<close> and of \<open>predict\<close> on every input.
\<close>

theorem hop_length_never_read:
  "hop_length (CascadedNet_init L wt nfft hp1 nout nol cplx) = hp1 \<and>
   forward (CascadedNet_init L wt nfft hp1 nout nol cplx) x =
     forward (CascadedNet_init L wt nfft hp2 nout nol cplx) x \<and>
   predict_mask (CascadedNet_init L wt nfft hp1 nout nol cplx) x =
     predict_mask (CascadedNet_init L wt nfft hp2 nout nol cplx) x \<and>
   predict (CascadedNet_init L wt nfft hp1 nout nol cplx) x =
     predict (CascadedNet_init L wt nfft hp2 nout nol cplx) x"
proof -
  let ?n1 = "CascadedNet_init L wt nfft hp1 nout nol cplx"
  have e: "CascadedNet_init L wt nfft hp2 nout nol cplx = ?n1\<lparr>hop_length := hp2\<rparr>"
    by (rule CascadedNet_init_hop_length)
  have t: "trim (?n1\<lparr>hop_length := hp2\<rparr>) = trim ?n1"
    by (rule ext) (rule trim_hop_length)
  show ?thesis
    unfolding e predict_mask_def predict_def forward_hop_length t
    by (simp add: CascadedNet_init_fields)
qed

theorem hop_length_never_read_witness:
  "forward (CascadedNet_init zero_layers no_weights 2048 512 32 128 False)
      (RealT (full 1 1 2 1025 256)) =
   forward (CascadedNet_init zero_layers no_weights 2048 1024 32 128 False)
      (RealT (full 1 1 2 1025 256))"
  using hop_length_never_read[of zero_layers no_weights 2048 512 32 128 False
      "RealT (full 1 1 2 1025 256)" 1024]
  by simp

text \<open>
  C4. A network constructed with \<open>n_fft = 2048\<close> (and the default widths, magnitude mode)
  has \<open>max_bin = 1024\<close>, \<open>output_bin = 1025\<close>, \<open>nin_lstm = 512\<close> and \<open>offset = 64\<close>; on a real
  input of shape (1, 2, 1025, 256) \<open>forward\<close> returns two masks of shape
  (1, 2, 1025, 256) and \<open>predict_mask\<close> returns two tensors of shape (1, 2, 1025, 128),
  whenever the modules of \<open>lib/layers.py\<close> keep their shape contracts.
\<close>

theorem end_to_end_2048:
  assumes "layers_ok L" and "shaped z 1 2 1025 256"
  shows "max_bin (CascadedNet_init L wt 2048 hop 32 128 False) = 1024 \<and>
    output_bin (CascadedNet_init L wt 2048 hop 32 128 False) = 1025 \<and>
    nin_lstm (CascadedNet_init L wt 2048 hop 32 128 False) = 512 \<and>
    offset (CascadedNet_init L wt 2048 hop 32 128 False) = 64 \<and>
    (\<exists>mask_y mask_v.
       forward (CascadedNet_init L wt 2048 hop 32 128 False) (RealT z) = Inr (mask_y, mask_v) \<and>
       any_size mask_y = (1, 2, 1025, 256) \<and> any_size mask_v = (1, 2, 1025, 256)) \<and>
    (\<exists>mask_y mask_v.
       predict_mask (CascadedNet_init L wt 2048 hop 32 128 False) (RealT z) =
         Inr (mask_y, mask_v) \<and>
       any_size mask_y = (1, 2, 1025, 128) \<and> any_size mask_v = (1, 2, 1025, 128))"
proof -
  have vi: "valid_input False (RealT z) 1 (2048 div 2 + 1) 256"
    using assms(2) by (simp add: valid_input_def)
  have fb: "(2048::nat) div 2 \<le> 2048 div 2 + 1" and t: "(128::nat) < 256" by simp_all
  from predict_mask_ok[OF assms(1) valid_config_default vi fb t, of wt hop]
  obtain my mv where
    "forward (CascadedNet_init L wt 2048 hop 32 128 False) (RealT z) = Inr (my, mv)"
    "any_size my = (1, 2, 2048 div 2 + 1, 256)" "any_size mv = (1, 2, 2048 div 2 + 1, 256)"
    "predict_mask (CascadedNet_init L wt 2048 hop 32 128 False) (RealT z) =
       Inr (any_slice_dim3_mid 64 my, any_slice_dim3_mid 64 mv)"
    "any_size (any_slice_dim3_mid 64 my) = (1, 2, 2048 div 2 + 1, 256 - 128)"
    "any_size (any_slice_dim3_mid 64 mv) = (1, 2, 2048 div 2 + 1, 256 - 128)"
    by metis
  then show ?thesis by (simp add: CascadedNet_init_fields)
qed

theorem end_to_end_2048_witness:
  "layers_ok zero_layers \<and> shaped (full (0::real) 1 2 1025 256) 1 2 1025 256 \<and>
   (\<exists>mask_y mask_v.
       predict_mask (CascadedNet_init zero_layers no_weights 2048 512 32 128 False)
         (RealT (full 0 1 2 1025 256)) = Inr (mask_y, mask_v) \<and>
       any_size mask_y = (1, 2, 1025, 128) \<and> any_size mask_v = (1, 2, 1025, 128))"
  using end_to_end_2048[OF layers_ok_zero_layers shaped_full[of "0::real" 1 2 1025 256],
      where wt = no_weights and hop = 512]
    layers_ok_zero_layers shaped_full[of "0::real" 1 2 1025 256]
  by simp

text \<open>
  C3. For every valid input (a frequency extent of at least \<open>max_bin\<close>), each of the two
  masks that \<open>forward\<close> returns has the channel count of the input's bands (2 in
  magnitude mode; in complex mode the raw mask has 4 real channels and the mask 2
  complex ones) and the frequency extent \<open>output_bin = n_fft // 2 + 1\<close> whatever the
  input's frequency extent was; the row added above \<open>max_bin\<close> repeats the last row of
  the mask.
\<close>

theorem forward_mask_shape:
  assumes "layers_ok L" and "valid_config nfft nout nol"
    and "valid_input cplx x b f t" and "nfft div 2 \<le> f"
  shows "\<exists>xr st raw_y raw_v uy uv mask_y mask_v.
     to_channels (CascadedNet_init L wt nfft hop nout nol cplx) x = Inr xr \<and>
     cascade (CascadedNet_init L wt nfft hop nout nol cplx) xr = Inr st \<and>
     out_y (CascadedNet_init L wt nfft hop nout nol cplx) (f3 st) = Inr raw_y \<and>
     out_v (CascadedNet_init L wt nfft hop nout nol cplx) (f3 st) = Inr raw_v \<and>
     size1 raw_y = (if cplx then 4 else 2) \<and> size1 raw_v = (if cplx then 4 else 2) \<and>
     masks (CascadedNet_init L wt nfft hop nout nol cplx) (f3 st) = Inr (uy, uv) \<and>
     any_size uy = (b, 2, nfft div 2, t) \<and> any_size uv = (b, 2, nfft div 2, t) \<and>
     forward (CascadedNet_init L wt nfft hop nout nol cplx) x = Inr (mask_y, mask_v) \<and>
     output_bin (CascadedNet_init L wt nfft hop nout nol cplx) = nfft div 2 + 1 \<and>
     any_size mask_y = (b, 2, nfft div 2 + 1, t) \<and>
     any_size mask_v = (b, 2, nfft div 2 + 1, t) \<and>
     is_complexT mask_y = cplx \<and> is_complexT mask_v = cplx \<and>
     (\<forall>i<b. \<forall>j<2. \<forall>k<nfft div 2 + 1.
        any_freq_row mask_y i j k = any_freq_row uy i j (min k (nfft div 2 - 1)) \<and>
        any_freq_row mask_v i j k = any_freq_row uv i j (min k (nfft div 2 - 1)))"
proof -
  let ?net = "CascadedNet_init L wt nfft hop nout nol cplx"
  note a = valid_config_arith[OF assms(2)]
  obtain xr st ry rv my mv where
    r: "to_channels ?net x = Inr xr" "cascade ?net xr = Inr st"
      "out_y ?net (f3 st) = Inr ry" "out_v ?net (f3 st) = Inr rv"
      "shaped ry b (if cplx then 4 else 2) (nfft div 2) t"
      "shaped rv b (if cplx then 4 else 2) (nfft div 2) t"
      "masks ?net (f3 st) = Inr (spec_mask cplx ry, spec_mask cplx rv)"
      "any_pad_replicate 1 (spec_mask cplx ry) = Inr my"
      "any_pad_replicate 1 (spec_mask cplx rv) = Inr mv"
      "forward ?net x = Inr (my, mv)"
      "any_size my = (b, 2, nfft div 2 + 1, t)" "is_complexT my = cplx"
      "any_size mv = (b, 2, nfft div 2 + 1, t)" "is_complexT mv = cplx"
    by (rule forward_run[OF assms, of wt hop]) blast
  note py = spec_mask_props[OF r(5)] and pv = spec_mask_props[OF r(6)]
  have rows: "any_freq_row my i j k = any_freq_row (spec_mask cplx ry) i j (min k (nfft div 2 - 1))"
    "any_freq_row mv i j k = any_freq_row (spec_mask cplx rv) i j (min k (nfft div 2 - 1))"
    if "i < b" "j < 2" "k < nfft div 2 + 1" for i j k
    using any_pad_rows[OF py(1,2) a(7), of 1 my i j k]
      any_pad_rows[OF pv(1,2) a(7), of 1 mv i j k] r(8,9) that by simp_all
  have rowsA: "\<forall>i<b. \<forall>j<2. \<forall>k<nfft div 2 + 1.
        any_freq_row my i j k = any_freq_row (spec_mask cplx ry) i j (min k (nfft div 2 - 1)) \<and>
        any_freq_row mv i j k = any_freq_row (spec_mask cplx rv) i j (min k (nfft div 2 - 1))"
    using rows by blast
  have ob: "output_bin ?net = nfft div 2 + 1" by (simp add: CascadedNet_init_fields)
  have c: "size1 ry = (if cplx then 4 else 2)" "size1 rv = (if cplx then 4 else 2)"
    using shaped_sizes[OF r(5)] shaped_sizes[OF r(6)] by blast+
  show ?thesis
    using r(1-4) c r(7) py(2) pv(2) r(10) ob r(11) r(13) r(12) r(14) rowsA by blast
qed

theorem forward_mask_shape_witness:
  "layers_ok zero_layers \<and> valid_config 2048 32 128 \<and>
   valid_input False (RealT (full 0 1 2 1030 256)) 1 1030 256 \<and> (2048::nat) div 2 \<le> 1030 \<and>
   (\<exists>mask_y mask_v.
      forward (CascadedNet_init zero_layers no_weights 2048 512 32 128 False)
        (RealT (full 0 1 2 1030 256)) = Inr (mask_y, mask_v) \<and>
      any_size mask_y = (1, 2, 1025, 256) \<and> any_size mask_v = (1, 2, 1025, 256) \<and>
      any_freq_row mask_y 0 0 1024 = any_freq_row mask_y 0 0 1023)"
proof -
  have vi: "valid_input False (RealT (full 0 1 2 1030 256)) 1 1030 256"
    by (rule valid_input_full) simp_all
  have fb: "(2048::nat) div 2 \<le> 1030" by simp
  have "\<exists>mask_y mask_v.
      forward (CascadedNet_init zero_layers no_weights 2048 512 32 128 False)
        (RealT (full 0 1 2 1030 256)) = Inr (mask_y, mask_v) \<and>
      any_size mask_y = (1, 2, 1025, 256) \<and> any_size mask_v = (1, 2, 1025, 256) \<and>
      any_freq_row mask_y 0 0 1024 = any_freq_row mask_y 0 0 1023"
    using forward_mask_shape[OF layers_ok_zero_layers valid_config_default vi fb,
      where wt = no_weights and hop = 512]
  proof (elim exE conjE)
    fix uy uv my mv
    assume m: "forward (CascadedNet_init zero_layers no_weights 2048 512 32 128 False)
        (RealT (full 0 1 2 1030 256)) = Inr (my, mv)"
      and sy: "any_size my = (1, 2, 2048 div 2 + 1, 256)"
      and sv: "any_size mv = (1, 2, 2048 div 2 + 1, 256)"
      and rw: "\<forall>i<1. \<forall>j<2. \<forall>k<2048 div 2 + 1.
        any_freq_row my i j k = any_freq_row uy i j (min k (2048 div 2 - 1)) \<and>
        any_freq_row mv i j k = any_freq_row uv i j (min k (2048 div 2 - 1))"
    have "any_freq_row my 0 0 1024 = any_freq_row uy 0 0 1023"
      using rw[rule_format, of 0 0 1024] by simp
    moreover have "any_freq_row my 0 0 1023 = any_freq_row uy 0 0 1023"
      using rw[rule_format, of 0 0 1023] by simp
    ultimately have e: "any_freq_row my 0 0 1024 = any_freq_row my 0 0 1023" by simp
    have sy': "any_size my = (1, 2, 1025, 256)" and sv': "any_size mv = (1, 2, 1025, 256)"
      using sy sv by simp_all
    from m sy' sv' e show ?thesis by blast
  qed
  with layers_ok_zero_layers valid_config_default vi fb show ?thesis by blast
qed

text \<open>
  C2. In complex mode each raw mask that the 1 by 1 output convolution produces is read
  with the first half of its channels as real part and the second half as imaginary
  part, and each element \<open>m\<close> of the complex mask becomes \<open>m * tanh(|m|) / (|m| + eps)\<close>
  with \<open>eps = 1e-8\<close>; in magnitude mode each raw mask goes through the sigmoid,
  element by element. \<open>spec_mask\<close> is that description, and \<open>masks\<close> is the code.
\<close>

theorem mask_activation_as_specified:
  assumes "layers_ok L" and "valid_config nfft nout nol"
    and "valid_input cplx x b f t" and "nfft div 2 \<le> f"
  shows "(\<forall>m. wf_tensor m \<longrightarrow> bounded_mask m default_eps = Inr (tmap spec_bounded m)) \<and>
    (\<exists>xr st raw_y raw_v.
       to_channels (CascadedNet_init L wt nfft hop nout nol cplx) x = Inr xr \<and>
       cascade (CascadedNet_init L wt nfft hop nout nol cplx) xr = Inr st \<and>
       out_y (CascadedNet_init L wt nfft hop nout nol cplx) (f3 st) = Inr raw_y \<and>
       out_v (CascadedNet_init L wt nfft hop nout nol cplx) (f3 st) = Inr raw_v \<and>
       size1 raw_y = (if cplx then 4 else 2) \<and> size1 raw_v = (if cplx then 4 else 2) \<and>
       masks (CascadedNet_init L wt nfft hop nout nol cplx) (f3 st) =
         Inr (spec_mask cplx raw_y, spec_mask cplx raw_v) \<and>
       forward (CascadedNet_init L wt nfft hop nout nol cplx) x =
         pad_masks (CascadedNet_init L wt nfft hop nout nol cplx)
           (spec_mask cplx raw_y, spec_mask cplx raw_v))"
proof -
  let ?net = "CascadedNet_init L wt nfft hop nout nol cplx"
  obtain xr st ry rv my mv where
    r: "to_channels ?net x = Inr xr" "cascade ?net xr = Inr st"
      "out_y ?net (f3 st) = Inr ry" "out_v ?net (f3 st) = Inr rv"
      "shaped ry b (if cplx then 4 else 2) (nfft div 2) t"
      "shaped rv b (if cplx then 4 else 2) (nfft div 2) t"
      "masks ?net (f3 st) = Inr (spec_mask cplx ry, spec_mask cplx rv)"
    by (rule forward_run[OF assms, of wt hop]) blast
  have c: "size1 ry = (if cplx then 4 else 2)" "size1 rv = (if cplx then 4 else 2)"
    using shaped_sizes[OF r(5)] shaped_sizes[OF r(6)] by blast+
  have f: "forward ?net x = pad_masks ?net (spec_mask cplx ry, spec_mask cplx rv)"
    using r(1,2,7) by (simp add: forward_def)
  have b: "\<forall>m. wf_tensor m \<longrightarrow> bounded_mask m default_eps = Inr (tmap spec_bounded m)"
    by (simp add: bounded_mask_spec)
  from r(1-4) c r(7) f have "\<exists>xr st raw_y raw_v.
       to_channels ?net x = Inr xr \<and> cascade ?net xr = Inr st \<and>
       out_y ?net (f3 st) = Inr raw_y \<and> out_v ?net (f3 st) = Inr raw_v \<and>
       size1 raw_y = (if cplx then 4 else 2) \<and> size1 raw_v = (if cplx then 4 else 2) \<and>
       masks ?net (f3 st) = Inr (spec_mask cplx raw_y, spec_mask cplx raw_v) \<and>
       forward ?net x = pad_masks ?net (spec_mask cplx raw_y, spec_mask cplx raw_v)"
    by blast
  with b show ?thesis by (rule conjI)
qed

theorem mask_activation_as_specified_witness:
  "layers_ok zero_layers \<and> valid_config 2048 32 128 \<and>
   valid_input True (ComplexT (full 0 1 2 1025 256)) 1 1025 256 \<and> (2048::nat) div 2 \<le> 1025 \<and>
   wf_tensor (full (Complex 3 4) 1 2 4 3) \<and>
   bounded_mask (full (Complex 3 4) 1 2 4 3) default_eps =
     Inr (tmap spec_bounded (full (Complex 3 4) 1 2 4 3)) \<and>
   (\<exists>raw_y raw_v.
      size1 raw_y = 4 \<and> size1 raw_v = 4 \<and>
      forward (CascadedNet_init zero_layers no_weights 2048 512 32 128 True)
         (ComplexT (full 0 1 2 1025 256)) =
      pad_masks (CascadedNet_init zero_layers no_weights 2048 512 32 128 True)
         (spec_mask True raw_y, spec_mask True raw_v))"
proof -
  have vi: "valid_input True (ComplexT (full 0 1 2 1025 256)) 1 1025 256"
    by (rule valid_input_full) simp_all
  have fb: "(2048::nat) div 2 \<le> 1025" by simp
  note t = mask_activation_as_specified[OF layers_ok_zero_layers valid_config_default vi fb,
      where wt = no_weights and hop = 512]
  from t have b: "bounded_mask (full (Complex 3 4) 1 2 4 3) default_eps =
     Inr (tmap spec_bounded (full (Complex 3 4) 1 2 4 3))"
    using wf_full[of "Complex 3 4" 1 2 4 3] by blast
  have e: "\<exists>raw_y raw_v.
      size1 raw_y = 4 \<and> size1 raw_v = 4 \<and>
      forward (CascadedNet_init zero_layers no_weights 2048 512 32 128 True)
         (ComplexT (full 0 1 2 1025 256)) =
      pad_masks (CascadedNet_init zero_layers no_weights 2048 512 32 128 True)
         (spec_mask True raw_y, spec_mask True raw_v)"
    using conjunct2[OF t]
  proof (elim exE conjE)
    fix ry rv :: "real tensor"
    assume "size1 ry = (if True then 4 else 2)" "size1 rv = (if True then 4 else 2)"
      and "forward (CascadedNet_init zero_layers no_weights 2048 512 32 128 True)
         (ComplexT (full 0 1 2 1025 256)) =
        pad_masks (CascadedNet_init zero_layers no_weights 2048 512 32 128 True)
         (spec_mask True ry, spec_mask True rv)"
    then have "size1 ry = 4 \<and> size1 rv = 4 \<and>
      forward (CascadedNet_init zero_layers no_weights 2048 512 32 128 True)
         (ComplexT (full 0 1 2 1025 256)) =
        pad_masks (CascadedNet_init zero_layers no_weights 2048 512 32 128 True)
         (spec_mask True ry, spec_mask True rv)" by simp
    then show ?thesis by blast
  qed
  from layers_ok_zero_layers valid_config_default vi fb wf_full[of "Complex 3 4" 1 2 4 3] b e
  show ?thesis by blast
qed

text \<open>
  C5. A tensor of frequency length \<open>F\<close> is split at \<open>F // 2\<close>: the low band is its first
  \<open>F // 2\<close> bins and the high band the remaining ones, one more than the low band when
  \<open>F\<close> is odd. With \<open>max_bin = 1024\<close> the low band of the truncated input is its first 512
  bins, the high band the other 512, and \<open>aux1\<close>, the stage-1 outputs of the two bands
  put together along the frequency axis, has exactly 1024 bins.
\<close>

theorem band_split_at_half:
  "band_split x =
     (size2 x div 2, slice_dim2_to (size2 x div 2) x, slice_dim2_from (size2 x div 2) x) \<and>
   elems (fst (snd (band_split x))) = map (map (take (size2 x div 2))) (elems x) \<and>
   elems (snd (snd (band_split x))) = map (map (drop (size2 x div 2))) (elems x) \<and>
   size2 (fst (snd (band_split x))) = size2 x div 2 \<and>
   size2 (snd (snd (band_split x))) = size2 x - size2 x div 2 \<and>
   (odd (size2 x) \<longrightarrow>
      size2 (snd (snd (band_split x))) = size2 (fst (snd (band_split x))) + 1) \<and>
   (layers_ok L \<and> valid_config nfft nout nol \<and> nfft div 2 = 1024 \<and>
    shaped xr b (if cplx then 4 else 2) f t \<and> 1 \<le> b \<and> 1 \<le> t \<and> 1024 \<le> f \<longrightarrow>
    (\<exists>st. cascade (CascadedNet_init L wt nfft hop nout nol cplx) xr = Inr st \<and>
       size2 (x_cut st) = 1024 \<and>
       (bandw st, l1_in st, h1_in st) = band_split (x_cut st) \<and>
       l1_in st = slice_dim2_to 512 (x_cut st) \<and>
       h1_in st = slice_dim2_from 512 (x_cut st) \<and>
       size2 (l1_in st) = 512 \<and> size2 (h1_in st) = 512 \<and>
       cat_dim2 [l1 st, h1 st] = Inr (aux1 st) \<and> size2 (aux1 st) = 1024))"
proof -
  have g1: "band_split x =
     (size2 x div 2, slice_dim2_to (size2 x div 2) x, slice_dim2_from (size2 x div 2) x)"
    by (simp add: band_split_def Let_def)
  have g2: "elems (fst (snd (band_split x))) = map (map (take (size2 x div 2))) (elems x)"
    by (simp add: band_split_parts slice_dim2_to_def)
  have g3: "elems (snd (snd (band_split x))) = map (map (drop (size2 x div 2))) (elems x)"
    by (simp add: band_split_parts slice_dim2_from_def)
  have g4: "size2 (fst (snd (band_split x))) = size2 x div 2"
    by (simp add: band_split_parts)
  have g5: "size2 (snd (snd (band_split x))) = size2 x - size2 x div 2"
    by (simp add: band_split_parts)
  have g6: "odd (size2 x) \<longrightarrow>
      size2 (snd (snd (band_split x))) = size2 (fst (snd (band_split x))) + 1"
    unfolding g4 g5 by presburger
  have g7: "\<exists>st. cascade (CascadedNet_init L wt nfft hop nout nol cplx) xr = Inr st \<and>
       size2 (x_cut st) = 1024 \<and>
       (bandw st, l1_in st, h1_in st) = band_split (x_cut st) \<and>
       l1_in st = slice_dim2_to 512 (x_cut st) \<and>
       h1_in st = slice_dim2_from 512 (x_cut st) \<and>
       size2 (l1_in st) = 512 \<and> size2 (h1_in st) = 512 \<and>
       cat_dim2 [l1 st, h1 st] = Inr (aux1 st) \<and> size2 (aux1 st) = 1024"
    if L: "layers_ok L" and cfg: "valid_config nfft nout nol" and n: "nfft div 2 = 1024"
      and xr: "shaped xr b (if cplx then 4 else 2) f t" and d: "1 \<le> b" "1 \<le> t" "1024 \<le> f"
  proof -
    let ?net = "CascadedNet_init L wt nfft hop nout nol cplx"
    have fb: "nfft div 2 \<le> f" using n d(3) by simp
    obtain st where
      s: "cascade ?net xr = Inr st"
        "shaped (x_cut st) b (if cplx then 4 else 2) (nfft div 2) t"
        "shaped (l1_in st) b (if cplx then 4 else 2) (nfft div 2 div 2) t"
        "shaped (h1_in st) b (if cplx then 4 else 2) (nfft div 2 div 2) t"
        "shaped (aux1 st) b (nout div 4) (nfft div 2) t"
      by (rule cascade_shaped[OF L cfg xr refl d(1,2) fb, of wt hop]) blast
    note df = cascade_dataflow[OF s(1)]
    have a1: "size2 (x_cut st) = 1024" using shaped_sizes[OF s(2)] n by simp
    have a2: "(bandw st, l1_in st, h1_in st) = band_split (x_cut st)"
      using df(2,3,4) by (simp add: band_split_def Let_def)
    have a3: "l1_in st = slice_dim2_to 512 (x_cut st)" using df(2,3) a1 by simp
    have a4: "h1_in st = slice_dim2_from 512 (x_cut st)" using df(2,4) a1 by simp
    have a5: "size2 (l1_in st) = 512" using shaped_sizes[OF s(3)] n by simp
    have a6: "size2 (h1_in st) = 512" using shaped_sizes[OF s(4)] n by simp
    have a7: "size2 (aux1 st) = 1024" using shaped_sizes[OF s(5)] n by simp
    from s(1) a1 a2 a3 a4 a5 a6 df(7) a7 show ?thesis by blast
  qed
  from g1 g2 g3 g4 g5 g6 g7 show ?thesis by blast
qed

theorem band_split_at_half_witness:
  "odd (size2 (full (0::real) 1 2 5 3)) \<and>
   size2 (fst (snd (band_split (full (0::real) 1 2 5 3)))) = 2 \<and>
   size2 (snd (snd (band_split (full (0::real) 1 2 5 3)))) = 3 \<and>
   layers_ok zero_layers \<and> valid_config 2048 32 128 \<and> (2048::nat) div 2 = 1024 \<and>
   shaped (full (0::real) 1 2 1025 256) 1 2 1025 256 \<and>
   (\<exists>st. cascade (CascadedNet_init zero_layers no_weights 2048 512 32 128 False)
           (full 0 1 2 1025 256) = Inr st \<and>
      size2 (l1_in st) = 512 \<and> size2 (h1_in st) = 512 \<and> size2 (aux1 st) = 1024)"
proof -
  note t = band_split_at_half[where x = "full (0::real) 1 2 5 3" and L = zero_layers
      and nfft = 2048 and nout = 32 and nol = 128 and xr = "full 0 1 2 1025 256" and b = 1
      and cplx = False and f = 1025 and t = 256 and wt = no_weights and hop = 512]
  have o: "odd (size2 (full (0::real) 1 2 5 3))" by simp
  have s: "shaped (full (0::real) 1 2 1025 256) 1 2 1025 256" by (rule shaped_full)
  have n: "(2048::nat) div 2 = 1024" by simp
  from t have lo: "size2 (fst (snd (band_split (full (0::real) 1 2 5 3)))) = 2" by simp
  from t o have hi: "size2 (snd (snd (band_split (full (0::real) 1 2 5 3)))) = 3" by simp
  have pre: "layers_ok zero_layers \<and> valid_config 2048 32 128 \<and> (2048::nat) div 2 = 1024 \<and>
      shaped (full (0::real) 1 2 1025 256) 1 (if False then 4 else 2) 1025 256 \<and>
      (1::nat) \<le> 1 \<and> (1::nat) \<le> 256 \<and> (1024::nat) \<le> 1025"
    using layers_ok_zero_layers valid_config_default s by simp
  from t pre have "\<exists>st. cascade (CascadedNet_init zero_layers no_weights 2048 512 32 128 False)
           (full 0 1 2 1025 256) = Inr st \<and>
       size2 (x_cut st) = 1024 \<and>
       (bandw st, l1_in st, h1_in st) = band_split (x_cut st) \<and>
       l1_in st = slice_dim2_to 512 (x_cut st) \<and>
       h1_in st = slice_dim2_from 512 (x_cut st) \<and>
       size2 (l1_in st) = 512 \<and> size2 (h1_in st) = 512 \<and>
       cat_dim2 [l1 st, h1 st] = Inr (aux1 st) \<and> size2 (aux1 st) = 1024"
    by blast
  then have e: "\<exists>st. cascade (CascadedNet_init zero_layers no_weights 2048 512 32 128 False)
           (full 0 1 2 1025 256) = Inr st \<and>
      size2 (l1_in st) = 512 \<and> size2 (h1_in st) = 512 \<and> size2 (aux1 st) = 1024"
    by blast
  from o lo hi layers_ok_zero_layers valid_config_default n s e show ?thesis by blast
qed

text \<open>
  C6. In \<open>forward\<close> the input of each stage-2 network is the band's own input (the
  truncated input, split into bands) followed on the channel axis by the band's stage-1
  output, and the input of stage 3 is the whole truncated input followed by \<open>aux1\<close> and
  \<open>aux2\<close>; stage 3 is one full-band BaseNet whose recurrent module is built with
  \<open>nin_lstm = max_bin // 2\<close>. The channel count grows strictly from stage to stage.
\<close>

theorem cascade_context_grows:
  assumes "layers_ok L" and "valid_config nfft nout nol"
    and "shaped xr b nin f t" and "nin = (if cplx then 4 else 2)"
    and "1 \<le> b" and "1 \<le> t" and "nfft div 2 \<le> f"
  shows "\<exists>st. cascade (CascadedNet_init L wt nfft hop nout nol cplx) xr = Inr st \<and>
     x_cut st = slice_dim2_to (max_bin (CascadedNet_init L wt nfft hop nout nol cplx)) xr \<and>
     (bandw st, l1_in st, h1_in st) = band_split (x_cut st) \<and>
     stg1_low_band_net (CascadedNet_init L wt nfft hop nout nol cplx) (l1_in st) = Inr (l1 st) \<and>
     stg1_high_band_net (CascadedNet_init L wt nfft hop nout nol cplx) (h1_in st) = Inr (h1 st) \<and>
     cat_dim2 [l1 st, h1 st] = Inr (aux1 st) \<and>
     cat_dim1 [l1_in st, l1 st] = Inr (l2_in st) \<and>
     cat_dim1 [h1_in st, h1 st] = Inr (h2_in st) \<and>
     elems (l2_in st) = map2 (@) (elems (l1_in st)) (elems (l1 st)) \<and>
     elems (h2_in st) = map2 (@) (elems (h1_in st)) (elems (h1 st)) \<and>
     stg2_low_band_net (CascadedNet_init L wt nfft hop nout nol cplx) (l2_in st) = Inr (l2 st) \<and>
     stg2_high_band_net (CascadedNet_init L wt nfft hop nout nol cplx) (h2_in st) = Inr (h2 st) \<and>
     cat_dim2 [l2 st, h2 st] = Inr (aux2 st) \<and>
     cat_dim1 [x_cut st, aux1 st, aux2 st] = Inr (f3_in st) \<and>
     elems (f3_in st) =
       map2 (@) (map2 (@) (elems (x_cut st)) (elems (aux1 st))) (elems (aux2 st)) \<and>
     stg3_full_band_net (CascadedNet_init L wt nfft hop nout nol cplx) (f3_in st) = Inr (f3 st) \<and>
     stg3_full_band_net (CascadedNet_init L wt nfft hop nout nol cplx) =
       BaseNet_call (BaseNet_init L (sub ''stg3_full_band_net'' wt) (3 * nout div 4 + nin) nout
         (max_bin (CascadedNet_init L wt nfft hop nout nol cplx) div 2) nol default_dilations) \<and>
     lstm_dec2 (BaseNet_init L (sub ''stg3_full_band_net'' wt) (3 * nout div 4 + nin) nout
         (max_bin (CascadedNet_init L wt nfft hop nout nol cplx) div 2) nol default_dilations) =
       LSTMModule L (sub ''stg3_full_band_net'' wt ''lstm_dec2'') (nout * 2)
         (max_bin (CascadedNet_init L wt nfft hop nout nol cplx) div 2) nol \<and>
     nin_lstm (CascadedNet_init L wt nfft hop nout nol cplx) =
       max_bin (CascadedNet_init L wt nfft hop nout nol cplx) div 2 \<and>
     size1 (l1_in st) = nin \<and> size1 (h1_in st) = nin \<and>
     size1 (l2_in st) = nin + nout div 4 \<and> size1 (h2_in st) = nin + nout div 4 \<and>
     size1 (f3_in st) = nin + nout div 4 + nout div 2 \<and>
     size1 (l1_in st) < size1 (l2_in st) \<and> size1 (h1_in st) < size1 (h2_in st) \<and>
     size1 (l2_in st) < size1 (f3_in st) \<and> size1 (h2_in st) < size1 (f3_in st)"
proof -
  let ?net = "CascadedNet_init L wt nfft hop nout nol cplx"
  note a = valid_config_arith[OF assms(2)]
  obtain st where
    s: "cascade ?net xr = Inr st"
      "shaped (l1_in st) b nin (nfft div 2 div 2) t"
      "shaped (h1_in st) b nin (nfft div 2 div 2) t"
      "shaped (l2_in st) b (nin + nout div 4) (nfft div 2 div 2) t"
      "shaped (h2_in st) b (nin + nout div 4) (nfft div 2 div 2) t"
      "shaped (f3_in st) b (nin + nout div 4 + nout div 2) (nfft div 2) t"
    by (rule cascade_shaped[OF assms, of wt hop]) blast
  note df = cascade_dataflow[OF s(1)]
  have b1: "(bandw st, l1_in st, h1_in st) = band_split (x_cut st)"
    using df(2,3,4) by (simp add: band_split_def Let_def)
  note e1 = cat_dim1_pair_elems[OF df(8)] and e2 = cat_dim1_pair_elems[OF df(9)]
    and e3 = cat_dim1_triple_elems[OF df(13)]
  have n3: "stg3_full_band_net ?net =
       BaseNet_call (BaseNet_init L (sub ''stg3_full_band_net'' wt) (3 * nout div 4 + nin) nout
         (max_bin ?net div 2) nol default_dilations)"
    by (simp add: CascadedNet_init_nets CascadedNet_init_fields assms(4))
  have n4: "lstm_dec2 (BaseNet_init L (sub ''stg3_full_band_net'' wt) (3 * nout div 4 + nin) nout
         (max_bin ?net div 2) nol default_dilations) =
       LSTMModule L (sub ''stg3_full_band_net'' wt ''lstm_dec2'') (nout * 2)
         (max_bin ?net div 2) nol"
    by (simp add: BaseNet_init_def)
  have n5: "nin_lstm ?net = max_bin ?net div 2" by (simp add: CascadedNet_init_fields)
  have c1: "size1 (l1_in st) = nin" "size1 (h1_in st) = nin"
    "size1 (l2_in st) = nin + nout div 4" "size1 (h2_in st) = nin + nout div 4"
    "size1 (f3_in st) = nin + nout div 4 + nout div 2"
    using shaped_sizes[OF s(2)] shaped_sizes[OF s(3)] shaped_sizes[OF s(4)]
      shaped_sizes[OF s(5)] shaped_sizes[OF s(6)] by blast+
  have c2: "size1 (l1_in st) < size1 (l2_in st)" "size1 (h1_in st) < size1 (h2_in st)"
    "size1 (l2_in st) < size1 (f3_in st)" "size1 (h2_in st) < size1 (f3_in st)"
    unfolding c1 using a(8,9) by simp_all
  from s(1) df(1) b1 df(5,6,7,8,9) e1 e2 df(10,11,12,13) e3 df(14) n3 n4 n5 c1 c2
  show ?thesis by blast
qed

theorem cascade_context_grows_witness:
  "layers_ok zero_layers \<and> valid_config 2048 32 128 \<and>
   shaped (full (0::real) 1 2 1025 256) 1 2 1025 256 \<and> (2048::nat) div 2 \<le> 1025 \<and>
   (\<exists>st. cascade (CascadedNet_init zero_layers no_weights 2048 512 32 128 False)
           (full 0 1 2 1025 256) = Inr st \<and>
      size1 (l1_in st) = 2 \<and> size1 (l2_in st) = 10 \<and> size1 (f3_in st) = 26 \<and>
      cat_dim1 [x_cut st, aux1 st, aux2 st] = Inr (f3_in st))"
proof -
  have s: "shaped (full (0::real) 1 2 1025 256) 1 2 1025 256" by (rule shaped_full)
  have n: "(2::nat) = (if False then 4 else 2)" by simp
  have d: "(1::nat) \<le> 1" "(1::nat) \<le> 256" "(2048::nat) div 2 \<le> 1025" by simp_all
  have "\<exists>st. cascade (CascadedNet_init zero_layers no_weights 2048 512 32 128 False)
           (full 0 1 2 1025 256) = Inr st \<and>
      size1 (l1_in st) = 2 \<and> size1 (l2_in st) = 10 \<and> size1 (f3_in st) = 26 \<and>
      cat_dim1 [x_cut st, aux1 st, aux2 st] = Inr (f3_in st)"
    using cascade_context_grows[OF layers_ok_zero_layers valid_config_default s n d,
        where wt = no_weights and hop = 512]
  proof (elim exE conjE)
    fix st
    assume "cascade (CascadedNet_init zero_layers no_weights 2048 512 32 128 False)
           (full 0 1 2 1025 256) = Inr st"
      and "size1 (l1_in st) = 2" and "size1 (l2_in st) = 2 + 32 div 4"
      and "size1 (f3_in st) = 2 + 32 div 4 + 32 div 2"
      and "cat_dim1 [x_cut st, aux1 st, aux2 st] = Inr (f3_in st)"
    then have "cascade (CascadedNet_init zero_layers no_weights 2048 512 32 128 False)
           (full 0 1 2 1025 256) = Inr st \<and>
      size1 (l1_in st) = 2 \<and> size1 (l2_in st) = 10 \<and> size1 (f3_in st) = 26 \<and>
      cat_dim1 [x_cut st, aux1 st, aux2 st] = Inr (f3_in st)" by simp
    then show ?thesis by blast
  qed
  with layers_ok_zero_layers valid_config_default s d(3) show ?thesis by blast
qed

text \<open>
  C10. \<open>forward\<close> accepts every input whose frequency extent \<open>F\<close> is at least \<open>max_bin\<close>,
  but \<open>predict\<close> multiplies the input as it came by a mask of frequency extent
  \<open>output_bin = n_fft // 2 + 1\<close>: it raises the shape error whenever \<open>F\<close> differs from
  \<open>output_bin\<close>, for \<open>F = max_bin\<close> in particular, and returns only when \<open>F = output_bin\<close>.
\<close>

theorem predict_needs_output_bin:
  assumes "layers_ok L" and "valid_config nfft nout nol"
    and "valid_input cplx x b f t" and "nfft div 2 \<le> f"
  shows "(\<exists>mask_y mask_v.
       forward (CascadedNet_init L wt nfft hop nout nol cplx) x = Inr (mask_y, mask_v) \<and>
       any_size mask_y =
         (b, 2, output_bin (CascadedNet_init L wt nfft hop nout nol cplx), t) \<and>
       any_size mask_v =
         (b, 2, output_bin (CascadedNet_init L wt nfft hop nout nol cplx), t)) \<and>
     (f \<noteq> output_bin (CascadedNet_init L wt nfft hop nout nol cplx) \<longrightarrow>
        predict (CascadedNet_init L wt nfft hop nout nol cplx) x = Inl ShapeMismatch) \<and>
     (f = max_bin (CascadedNet_init L wt nfft hop nout nol cplx) \<longrightarrow>
        predict (CascadedNet_init L wt nfft hop nout nol cplx) x = Inl ShapeMismatch) \<and>
     ((\<exists>p. predict (CascadedNet_init L wt nfft hop nout nol cplx) x = Inr p) \<longrightarrow>
        f = output_bin (CascadedNet_init L wt nfft hop nout nol cplx))"
proof -
  let ?net = "CascadedNet_init L wt nfft hop nout nol cplx"
  have ob: "output_bin ?net = nfft div 2 + 1" and mb: "max_bin ?net = nfft div 2"
    by (simp_all add: CascadedNet_init_fields)
  obtain my mv where
    m: "forward ?net x = Inr (my, mv)" "any_size my = (b, 2, nfft div 2 + 1, t)"
      "any_size mv = (b, 2, nfft div 2 + 1, t)"
    by (rule forward_run[OF assms, of wt hop]) blast
  have g1: "\<exists>mask_y mask_v. forward ?net x = Inr (mask_y, mask_v) \<and>
       any_size mask_y = (b, 2, output_bin ?net, t) \<and>
       any_size mask_v = (b, 2, output_bin ?net, t)"
    unfolding ob using m by blast
  have g2: "f \<noteq> output_bin ?net \<longrightarrow> predict ?net x = Inl ShapeMismatch"
    unfolding ob using predict_shape_error[OF assms, of wt hop] by blast
  have g3: "f = max_bin ?net \<longrightarrow> predict ?net x = Inl ShapeMismatch"
    unfolding mb using predict_shape_error[OF assms, of wt hop] by simp
  have g4: "(\<exists>p. predict ?net x = Inr p) \<longrightarrow> f = output_bin ?net"
    using g2 by auto
  from g1 g2 g3 g4 show ?thesis by blast
qed

theorem predict_needs_output_bin_witness:
  "layers_ok zero_layers \<and> valid_config 2048 32 128 \<and>
   valid_input False (RealT (full 0 1 2 1024 256)) 1 1024 256 \<and> (2048::nat) div 2 \<le> 1024 \<and>
   (1024::nat) \<noteq> output_bin (CascadedNet_init zero_layers no_weights 2048 512 32 128 False) \<and>
   (\<exists>mask_y mask_v.
      forward (CascadedNet_init zero_layers no_weights 2048 512 32 128 False)
        (RealT (full 0 1 2 1024 256)) = Inr (mask_y, mask_v)) \<and>
   predict (CascadedNet_init zero_layers no_weights 2048 512 32 128 False)
     (RealT (full 0 1 2 1024 256)) = Inl ShapeMismatch"
proof -
  have vi: "valid_input False (RealT (full 0 1 2 1024 256)) 1 1024 256"
    by (rule valid_input_full) simp_all
  have fb: "(2048::nat) div 2 \<le> 1024" by simp
  have ne: "(1024::nat) \<noteq>
      output_bin (CascadedNet_init zero_layers no_weights 2048 512 32 128 False)"
    by (simp add: CascadedNet_init_fields)
  note t = predict_needs_output_bin[OF layers_ok_zero_layers valid_config_default vi fb,
      where wt = no_weights and hop = 512]
  from t have e: "\<exists>mask_y mask_v.
      forward (CascadedNet_init zero_layers no_weights 2048 512 32 128 False)
        (RealT (full 0 1 2 1024 256)) = Inr (mask_y, mask_v)" by blast
  from t ne have p: "predict (CascadedNet_init zero_layers no_weights 2048 512 32 128 False)
     (RealT (full 0 1 2 1024 256)) = Inl ShapeMismatch" by blast
  from layers_ok_zero_layers valid_config_default vi fb ne e p show ?thesis by blast
qed

text \<open>
  C8, as amended. For every input whose time extent \<open>T\<close> is at most \<open>2 * offset\<close> (the
  constructor sets \<open>offset = 64\<close>) and on which \<open>forward\<close> succeeds, \<open>predict_mask\<close> fails
  with the degenerate-trim assertion; \<open>predict\<close> fails with it when the input has
  \<open>output_bin\<close> frequency bins, and with the shape error of the product otherwise.
  Neither returns a tensor.
\<close>

theorem degenerate_trim:
  assumes "layers_ok L" and "valid_config nfft nout nol"
    and "valid_input cplx x b f t" and "nfft div 2 \<le> f"
    and "t \<le> 2 * offset (CascadedNet_init L wt nfft hop nout nol cplx)"
  shows "offset (CascadedNet_init L wt nfft hop nout nol cplx) = 64 \<and>
     (\<exists>m. forward (CascadedNet_init L wt nfft hop nout nol cplx) x = Inr m) \<and>
     predict_mask (CascadedNet_init L wt nfft hop nout nol cplx) x = Inl AssertionError \<and>
     (f = output_bin (CascadedNet_init L wt nfft hop nout nol cplx) \<longrightarrow>
        predict (CascadedNet_init L wt nfft hop nout nol cplx) x = Inl AssertionError) \<and>
     (f \<noteq> output_bin (CascadedNet_init L wt nfft hop nout nol cplx) \<longrightarrow>
        predict (CascadedNet_init L wt nfft hop nout nol cplx) x = Inl ShapeMismatch) \<and>
     (\<forall>r. predict_mask (CascadedNet_init L wt nfft hop nout nol cplx) x \<noteq> Inr r) \<and>
     (\<forall>r. predict (CascadedNet_init L wt nfft hop nout nol cplx) x \<noteq> Inr r)"
proof -
  let ?net = "CascadedNet_init L wt nfft hop nout nol cplx"
  have ob: "output_bin ?net = nfft div 2 + 1" and o: "offset ?net = 64"
    by (simp_all add: CascadedNet_init_fields)
  from assms(5) have t: "t \<le> 128" by (simp add: o)
  obtain my mv where m: "forward ?net x = Inr (my, mv)"
    by (rule forward_run[OF assms(1-4), of wt hop]) blast
  then have g1: "\<exists>m. forward ?net x = Inr m" by blast
  have g2: "predict_mask ?net x = Inl AssertionError"
    by (rule predict_mask_degenerate[OF assms(1-4) t])
  have g3: "f = output_bin ?net \<longrightarrow> predict ?net x = Inl AssertionError"
    unfolding ob using predict_degenerate[OF assms(1,2) _ t, of cplx x b wt hop] assms(3)
    by blast
  have g4: "f \<noteq> output_bin ?net \<longrightarrow> predict ?net x = Inl ShapeMismatch"
    unfolding ob using predict_shape_error[OF assms(1-4), of wt hop] by blast
  have g5: "\<forall>r. predict_mask ?net x \<noteq> Inr r" using g2 by simp
  have g6: "\<forall>r. predict ?net x \<noteq> Inr r" using g3 g4 by (cases "f = output_bin ?net") simp_all
  from o g1 g2 g3 g4 g5 g6 show ?thesis by blast
qed

theorem degenerate_trim_witness:
  "layers_ok zero_layers \<and> valid_config 2048 32 128 \<and>
   valid_input False (RealT (full 0 1 2 1025 128)) 1 1025 128 \<and> (2048::nat) div 2 \<le> 1025 \<and>
   (128::nat) \<le> 2 * offset (CascadedNet_init zero_layers no_weights 2048 512 32 128 False) \<and>
   (1025::nat) = output_bin (CascadedNet_init zero_layers no_weights 2048 512 32 128 False) \<and>
   predict_mask (CascadedNet_init zero_layers no_weights 2048 512 32 128 False)
     (RealT (full 0 1 2 1025 128)) = Inl AssertionError \<and>
   predict (CascadedNet_init zero_layers no_weights 2048 512 32 128 False)
     (RealT (full 0 1 2 1025 128)) = Inl AssertionError"
proof -
  have vi: "valid_input False (RealT (full 0 1 2 1025 128)) 1 1025 128"
    by (rule valid_input_full) simp_all
  have fb: "(2048::nat) div 2 \<le> 1025" by simp
  have t: "(128::nat) \<le>
      2 * offset (CascadedNet_init zero_layers no_weights 2048 512 32 128 False)"
    by (simp add: CascadedNet_init_fields)
  have ob: "(1025::nat) =
      output_bin (CascadedNet_init zero_layers no_weights 2048 512 32 128 False)"
    by (simp add: CascadedNet_init_fields)
  note d = degenerate_trim[OF layers_ok_zero_layers valid_config_default vi fb t]
  from d have pm: "predict_mask (CascadedNet_init zero_layers no_weights 2048 512 32 128 False)
     (RealT (full 0 1 2 1025 128)) = Inl AssertionError" by blast
  from d ob have p: "predict (CascadedNet_init zero_layers no_weights 2048 512 32 128 False)
     (RealT (full 0 1 2 1025 128)) = Inl AssertionError" by blast
  from layers_ok_zero_layers valid_config_default vi fb t ob pm p show ?thesis by blast
qed

text \<open>
  C8, as stated, fails: an input of 1024 = \<open>max_bin\<close> frequency bins and 100 time frames
  makes \<open>predict\<close> raise the shape error of the product, not the assertion.
\<close>

theorem degenerate_trim_counterexample:
  "any_size (RealT (full 0 1 2 1024 100)) = (1, 2, 1024, 100) \<and>
   (100::nat) \<le> 2 * offset (CascadedNet_init zero_layers no_weights 2048 512 32 128 False) \<and>
   predict (CascadedNet_init zero_layers no_weights 2048 512 32 128 False)
     (RealT (full 0 1 2 1024 100)) = Inl ShapeMismatch \<and>
   predict (CascadedNet_init zero_layers no_weights 2048 512 32 128 False)
     (RealT (full 0 1 2 1024 100)) \<noteq> Inl AssertionError"
proof -
  have vi: "valid_input False (RealT (full 0 1 2 1024 100)) 1 1024 100"
    by (rule valid_input_full) simp_all
  have fb: "(2048::nat) div 2 \<le> 1024" and ne: "(1024::nat) \<noteq> 2048 div 2 + 1" by simp_all
  have p: "predict (CascadedNet_init zero_layers no_weights 2048 512 32 128 False)
     (RealT (full 0 1 2 1024 100)) = Inl ShapeMismatch"
    by (rule predict_shape_error[OF layers_ok_zero_layers valid_config_default vi fb ne])
  have s: "any_size (RealT (full 0 1 2 1024 100)) = (1, 2, 1024, 100)" by simp
  have t: "(100::nat) \<le>
      2 * offset (CascadedNet_init zero_layers no_weights 2048 512 32 128 False)"
    by (simp add: CascadedNet_init_fields)
  from s t p show ?thesis by simp
qed

text \<open>
  C1, as amended. For every input on which \<open>predict\<close> and \<open>predict_mask\<close> both succeed,
  \<open>predict\<close> returns, for each of the two sources, the elementwise product of the input
  itself (with all its \<open>output_bin\<close> frequency bins, the top one as it came, and trimmed
  on the time axis as the masks are) with the corresponding mask returned by
  \<open>predict_mask\<close>; both trim with the same offset, 64, to the same time extent
  \<open>T - 2 * offset\<close>.
\<close>

theorem predict_is_input_times_mask:
  assumes "layers_ok L" and "valid_config nfft nout nol"
    and "valid_input cplx x b f t" and "nfft div 2 \<le> f"
    and "predict_mask (CascadedNet_init L wt nfft hop nout nol cplx) x = Inr (mask_y, mask_v)"
    and "predict (CascadedNet_init L wt nfft hop nout nol cplx) x = Inr (pred_y, pred_v)"
  shows "torch_mul
       (any_slice_dim3_mid (offset (CascadedNet_init L wt nfft hop nout nol cplx)) x) mask_y =
       Inr pred_y \<and>
     torch_mul
       (any_slice_dim3_mid (offset (CascadedNet_init L wt nfft hop nout nol cplx)) x) mask_v =
       Inr pred_v \<and>
     offset (CascadedNet_init L wt nfft hop nout nol cplx) = 64 \<and>
     f = output_bin (CascadedNet_init L wt nfft hop nout nol cplx) \<and>
     2 * offset (CascadedNet_init L wt nfft hop nout nol cplx) < t \<and>
     any_size mask_y = (b, 2, f, t - 2 * offset (CascadedNet_init L wt nfft hop nout nol cplx)) \<and>
     any_size mask_v = (b, 2, f, t - 2 * offset (CascadedNet_init L wt nfft hop nout nol cplx)) \<and>
     any_size pred_y = (b, 2, f, t - 2 * offset (CascadedNet_init L wt nfft hop nout nol cplx)) \<and>
     any_size pred_v = (b, 2, f, t - 2 * offset (CascadedNet_init L wt nfft hop nout nol cplx))"
proof -
  let ?net = "CascadedNet_init L wt nfft hop nout nol cplx"
  have ob: "output_bin ?net = nfft div 2 + 1" and o: "offset ?net = 64"
    by (simp_all add: CascadedNet_init_fields)
  have f: "f = nfft div 2 + 1"
  proof (rule ccontr)
    assume "f \<noteq> nfft div 2 + 1"
    from predict_shape_error[OF assms(1-4) this, of wt hop] assms(6) show False by simp
  qed
  have t: "128 < t"
  proof (rule ccontr)
    assume "\<not> 128 < t"
    then have "t \<le> 128" by simp
    from predict_mask_degenerate[OF assms(1-4) this, of wt hop] assms(5) show False by simp
  qed
  from assms(3) have vi: "valid_input cplx x b (nfft div 2 + 1) t" by (simp add: f)
  obtain my mv py pv where
    r: "predict_mask ?net x = Inr (any_slice_dim3_mid 64 my, any_slice_dim3_mid 64 mv)"
      "predict ?net x = Inr (py, pv)"
      "torch_mul (any_slice_dim3_mid 64 x) (any_slice_dim3_mid 64 my) = Inr py"
      "torch_mul (any_slice_dim3_mid 64 x) (any_slice_dim3_mid 64 mv) = Inr pv"
      "any_size py = (b, 2, nfft div 2 + 1, t - 128)"
      "any_size pv = (b, 2, nfft div 2 + 1, t - 128)"
      "any_size (any_slice_dim3_mid 64 my) = (b, 2, nfft div 2 + 1, t - 128)"
      "any_size (any_slice_dim3_mid 64 mv) = (b, 2, nfft div 2 + 1, t - 128)"
    by (rule predict_ok[OF assms(1,2) vi t, of wt hop]) blast
  from r(1) assms(5) have m: "mask_y = any_slice_dim3_mid 64 my"
    "mask_v = any_slice_dim3_mid 64 mv" by simp_all
  from r(2) assms(6) have p: "pred_y = py" "pred_v = pv" by simp_all
  have g1: "torch_mul (any_slice_dim3_mid (offset ?net) x) mask_y = Inr pred_y"
    unfolding o m p by (rule r(3))
  have g2: "torch_mul (any_slice_dim3_mid (offset ?net) x) mask_v = Inr pred_v"
    unfolding o m p by (rule r(4))
  have g3: "f = output_bin ?net" unfolding ob by (rule f)
  have g4: "2 * offset ?net < t" unfolding o using t by simp
  have g5: "any_size mask_y = (b, 2, f, t - 2 * offset ?net)"
    "any_size mask_v = (b, 2, f, t - 2 * offset ?net)"
    "any_size pred_y = (b, 2, f, t - 2 * offset ?net)"
    "any_size pred_v = (b, 2, f, t - 2 * offset ?net)"
    unfolding o m p f using r(5-8) by simp_all
  from g1 g2 o g3 g4 g5 show ?thesis by blast
qed

theorem predict_is_input_times_mask_witness:
  "layers_ok zero_layers \<and> valid_config 2048 32 128 \<and>
   valid_input False (RealT (top_bin_input 1 3 1 1024 256)) 1 1025 256 \<and> (2048::nat) div 2 \<le> 1025 \<and>
   predict_mask (CascadedNet_init zero_layers no_weights 2048 512 32 128 False) (RealT (top_bin_input 1 3 1 1024 256)) =
     Inr (RealT (full (1 / 2) 1 2 1025 128), RealT (full (1 / 2) 1 2 1025 128)) \<and>
   predict (CascadedNet_init zero_layers no_weights 2048 512 32 128 False) (RealT (top_bin_input 1 3 1 1024 256)) =
     Inr (RealT (top_bin_input (1 / 2) (3 / 2) 1 1024 128),
          RealT (top_bin_input (1 / 2) (3 / 2) 1 1024 128)) \<and>
   torch_mul (any_slice_dim3_mid (offset (CascadedNet_init zero_layers no_weights 2048 512 32 128 False)) (RealT (top_bin_input 1 3 1 1024 256))) (RealT (full (1 / 2) 1 2 1025 128)) =
     Inr (RealT (top_bin_input (1 / 2) (3 / 2) 1 1024 128)) \<and>
   any_size (RealT (top_bin_input (1 / 2) (3 / 2) 1 1024 128 :: real tensor)) =
     (1, 2, 1025, 256 - 2 * offset (CascadedNet_init zero_layers no_weights 2048 512 32 128 False))"
proof -
  have vi: "valid_input False (RealT (top_bin_input 1 3 1 1024 256)) 1 1025 256"
    using valid_input_top_bin[of 1 256 "1::real" 3 1024] by simp
  have fb: "(2048::nat) div 2 \<le> 1025" by simp
  have t: "(128::nat) < 256" by simp
  have pm: "predict_mask (CascadedNet_init zero_layers no_weights 2048 512 32 128 False) (RealT (top_bin_input 1 3 1 1024 256)) =
     Inr (RealT (full (1 / 2) 1 2 1025 128), RealT (full (1 / 2) 1 2 1025 128))"
    using predict_mask_zero_layers[OF valid_config_default vi fb t,
        where wt = no_weights and hop = 512] by simp
  have p: "predict (CascadedNet_init zero_layers no_weights 2048 512 32 128 False) (RealT (top_bin_input 1 3 1 1024 256)) =
     Inr (RealT (top_bin_input (1 / 2) (3 / 2) 1 1024 128),
          RealT (top_bin_input (1 / 2) (3 / 2) 1 1024 128))"
    using predict_top_bin[OF valid_config_default order_refl t,
        where wt = no_weights and hop = 512 and v = 1 and v' = 3] by simp
  note d = predict_is_input_times_mask[OF layers_ok_zero_layers valid_config_default vi fb pm p]
  from d have m: "torch_mul (any_slice_dim3_mid (offset (CascadedNet_init zero_layers no_weights 2048 512 32 128 False)) (RealT (top_bin_input 1 3 1 1024 256)))
      (RealT (full (1 / 2) 1 2 1025 128)) =
     Inr (RealT (top_bin_input (1 / 2) (3 / 2) 1 1024 128))" by blast
  from d have s: "any_size (RealT (top_bin_input (1 / 2) (3 / 2) 1 1024 128 :: real tensor)) =
     (1, 2, 1025, 256 - 2 * offset (CascadedNet_init zero_layers no_weights 2048 512 32 128 False))" by blast
  from layers_ok_zero_layers valid_config_default vi fb pm p m s show ?thesis by blast
qed

text \<open>
  C1, as stated, fails. With \<open>n_fft = 2048\<close> and every learned parameter zero (both masks
  are 1/2 everywhere), take the magnitude input of shape (1, 2, 1025, 256) that holds 1
  in the bins below \<open>max_bin\<close> and 3 in bin \<open>max_bin = 1024\<close>. \<open>predict\<close> returns 3/2 in
  the top bin: the input as it came, times the mask. The product of the mask with the
  input truncated to \<open>max_bin\<close> bins and padded back holds 1/2 there when the padding
  replicates the last kept bin, and 0 when it pads with zeros.
\<close>

theorem predict_is_input_times_mask_counterexample:
  "predict (CascadedNet_init zero_layers no_weights 2048 512 32 128 False) (RealT (top_bin_input 1 3 1 1024 256)) =
     Inr (RealT (top_bin_input (1 / 2) (3 / 2) 1 1024 128),
          RealT (top_bin_input (1 / 2) (3 / 2) 1 1024 128)) \<and>
   predict_mask (CascadedNet_init zero_layers no_weights 2048 512 32 128 False) (RealT (top_bin_input 1 3 1 1024 256)) =
     Inr (RealT (full (1 / 2) 1 2 1025 128), RealT (full (1 / 2) 1 2 1025 128)) \<and>
   truncated_then_padded Replicate (CascadedNet_init zero_layers no_weights 2048 512 32 128 False) (RealT (top_bin_input 1 3 1 1024 256)) = Inr (RealT (top_bin_input 1 1 1 1024 256)) \<and>
   truncated_then_padded Zeros (CascadedNet_init zero_layers no_weights 2048 512 32 128 False) (RealT (top_bin_input 1 3 1 1024 256)) = Inr (RealT (top_bin_input 1 0 1 1024 256)) \<and>
   spec_predict Replicate (CascadedNet_init zero_layers no_weights 2048 512 32 128 False) (RealT (top_bin_input 1 3 1 1024 256)) =
     Inr (RealT (top_bin_input (1 / 2) (1 / 2) 1 1024 128),
          RealT (top_bin_input (1 / 2) (1 / 2) 1 1024 128)) \<and>
   spec_predict Zeros (CascadedNet_init zero_layers no_weights 2048 512 32 128 False) (RealT (top_bin_input 1 3 1 1024 256)) =
     Inr (RealT (top_bin_input (1 / 2) 0 1 1024 128),
          RealT (top_bin_input (1 / 2) 0 1 1024 128)) \<and>
   predict (CascadedNet_init zero_layers no_weights 2048 512 32 128 False) (RealT (top_bin_input 1 3 1 1024 256)) \<noteq> spec_predict Replicate (CascadedNet_init zero_layers no_weights 2048 512 32 128 False) (RealT (top_bin_input 1 3 1 1024 256)) \<and>
   predict (CascadedNet_init zero_layers no_weights 2048 512 32 128 False) (RealT (top_bin_input 1 3 1 1024 256)) \<noteq> spec_predict Zeros (CascadedNet_init zero_layers no_weights 2048 512 32 128 False) (RealT (top_bin_input 1 3 1 1024 256))"
proof -
  have vi: "valid_input False (RealT (top_bin_input 1 3 1 1024 256)) 1 1025 256"
    using valid_input_top_bin[of 1 256 "1::real" 3 1024] by simp
  have fb: "(2048::nat) div 2 \<le> 1025" by simp
  have t: "(128::nat) < 256" and t1: "(1::nat) \<le> 256" and m1: "(1::nat) \<le> 2048 div 2"
    by simp_all
  have pm: "predict_mask (CascadedNet_init zero_layers no_weights 2048 512 32 128 False) (RealT (top_bin_input 1 3 1 1024 256)) =
     Inr (RealT (full (1 / 2) 1 2 1025 128), RealT (full (1 / 2) 1 2 1025 128))"
    using predict_mask_zero_layers[OF valid_config_default vi fb t,
        where wt = no_weights and hop = 512] by simp
  have p: "predict (CascadedNet_init zero_layers no_weights 2048 512 32 128 False) (RealT (top_bin_input 1 3 1 1024 256)) =
     Inr (RealT (top_bin_input (1 / 2) (3 / 2) 1 1024 128),
          RealT (top_bin_input (1 / 2) (3 / 2) 1 1024 128))"
    using predict_top_bin[OF valid_config_default order_refl t,
        where wt = no_weights and hop = 512 and v = 1 and v' = 3] by simp
  have tr: "truncated_then_padded Replicate (CascadedNet_init zero_layers no_weights 2048 512 32 128 False) (RealT (top_bin_input 1 3 1 1024 256)) = Inr (RealT (top_bin_input 1 1 1 1024 256))"
    using truncated_then_padded_top_bin(1)[OF m1 t1, where L = zero_layers
        and wt = no_weights and hop = 512 and nout = 32 and nol = 128 and cplx = False
        and v = "1::real" and v' = 3 and b = 1] by simp
  have tz: "truncated_then_padded Zeros (CascadedNet_init zero_layers no_weights 2048 512 32 128 False) (RealT (top_bin_input 1 3 1 1024 256)) = Inr (RealT (top_bin_input 1 0 1 1024 256))"
    using truncated_then_padded_top_bin(2)[OF m1 t1, where L = zero_layers
        and wt = no_weights and hop = 512 and nout = 32 and nol = 128 and cplx = False
        and v = "1::real" and v' = 3 and b = 1] by simp
  have sr: "spec_predict Replicate (CascadedNet_init zero_layers no_weights 2048 512 32 128 False) (RealT (top_bin_input 1 3 1 1024 256)) =
     Inr (RealT (top_bin_input (1 / 2) (1 / 2) 1 1024 128),
          RealT (top_bin_input (1 / 2) (1 / 2) 1 1024 128))"
    using spec_predict_top_bin(1)[OF valid_config_default order_refl t,
        where wt = no_weights and hop = 512 and v = 1 and v' = 3] by simp
  have sz: "spec_predict Zeros (CascadedNet_init zero_layers no_weights 2048 512 32 128 False) (RealT (top_bin_input 1 3 1 1024 256)) =
     Inr (RealT (top_bin_input (1 / 2) 0 1 1024 128),
          RealT (top_bin_input (1 / 2) 0 1 1024 128))"
    using spec_predict_top_bin(2)[OF valid_config_default order_refl t,
        where wt = no_weights and hop = 512 and v = 1 and v' = 3] by simp
  have n1: "top_bin_input (1 / 2) (3 / 2) 1 1024 128 \<noteq>
      (top_bin_input (1 / 2) (1 / 2) 1 1024 128 :: real tensor)"
    using top_bin_input_inject[of 1 128 "1 / 2 :: real" "3 / 2" 1024 "1 / 2"] by auto
  have n2: "top_bin_input (1 / 2) (3 / 2) 1 1024 128 \<noteq>
      (top_bin_input (1 / 2) 0 1 1024 128 :: real tensor)"
    using top_bin_input_inject[of 1 128 "1 / 2 :: real" "3 / 2" 1024 0] by auto
  have d1: "predict (CascadedNet_init zero_layers no_weights 2048 512 32 128 False) (RealT (top_bin_input 1 3 1 1024 256)) \<noteq> spec_predict Replicate (CascadedNet_init zero_layers no_weights 2048 512 32 128 False) (RealT (top_bin_input 1 3 1 1024 256))" unfolding p sr using n1 by simp
  have d2: "predict (CascadedNet_init zero_layers no_weights 2048 512 32 128 False) (RealT (top_bin_input 1 3 1 1024 256)) \<noteq> spec_predict Zeros (CascadedNet_init zero_layers no_weights 2048 512 32 128 False) (RealT (top_bin_input 1 3 1 1024 256))" unfolding p sz using n2 by simp
  from p pm tr tz sr sz d1 d2 show ?thesis by blast
qed

end
